theory Spec2Isabelle
  imports Main
begin

section \<open>Customer data pipeline: the pandas and the PySpark implementation\<close>

text \<open>
  The repository holds two programs for one job: \<^verbatim>\<open>Pandas_Assessment_Solution.py\<close>
  and \<^verbatim>\<open>Pyspark_Assessment_Solution.py\<close>. Each reads a pipe-delimited file with
  one \<^verbatim>\<open>|H|\<close> header line and \<^verbatim>\<open>|D|\<close> data lines, converts three date
  columns, validates field lengths and mandatory fields, keeps the latest record of every
  customer, derives three columns and writes one table per country.

  Both programs are embedded function by function. What the libraries do (pandas,
  Spark SQL) is written out where a function of the repository relies on it; every
  such place says which library behaviour it stands for.
\<close>

subsection \<open>Values\<close>

text \<open>
  A calendar date; \<open>ordinal\<close> is the proleptic Gregorian day number (Python's
  \<^verbatim>\<open>date.toordinal\<close>), so that a difference of ordinals is a number of whole days.
\<close>

datatype date = YMD (year: int) (month: nat) (day: nat)

definition is_leap :: "int \<Rightarrow> bool" where
  "is_leap y = (if y mod 400 = 0 then True else if y mod 100 = 0 then False else y mod 4 = 0)"

definition days_in_month :: "int \<Rightarrow> nat \<Rightarrow> nat" where
  "days_in_month y m =
     (if m = 2 then (if is_leap y then 29 else 28)
      else if m = 4 \<or> m = 6 \<or> m = 9 \<or> m = 11 then 30 else 31)"

definition days_before_year :: "int \<Rightarrow> int" where
  "days_before_year y = (y - 1) * 365 + (y - 1) div 4 - (y - 1) div 100 + (y - 1) div 400"

definition days_before_month :: "int \<Rightarrow> nat \<Rightarrow> nat" where
  "days_before_month y m = sum_list (map (days_in_month y) [1..<m])"

definition ordinal :: "date \<Rightarrow> int" where
  "ordinal d = days_before_year (year d) + int (days_before_month (year d) (month d)) + int (day d)"

text \<open>
  A cell of a data frame. \<open>Null\<close> stands for every absence marker of the two libraries
  (\<^verbatim>\<open>None\<close>, \<^verbatim>\<open>NaN\<close>, \<^verbatim>\<open>NaT\<close>, SQL \<^verbatim>\<open>NULL\<close>).
\<close>

datatype cell = Null | Str string | Day date | Num int

subsection \<open>Derived columns\<close>

text \<open>
  pandas, \<^verbatim>\<open>create_and_populate_country_tables\<close>, the three \<^verbatim>\<open>apply\<close> calls:
  \<^verbatim>\<open>
  lambda x: datetime.now().year - x.year if pd.notnull(x) else np.nan
  lambda x: (pd.Timestamp.now() - x).days if pd.notnull(x) else np.nan
  lambda x: "Yes" if x > 30 else "No" if not pd.isna(x) else "Unknown"
  \<close>
  \<open>now\<close> is the current date. \<^verbatim>\<open>x\<close> is a midnight timestamp, so the \<^verbatim>\<open>days\<close>
  of the difference (rounded down) is the difference of the two dates in days whatever
  the time of day. The two date columns hold timestamps or \<^verbatim>\<open>NaT\<close> only;
  a comparison of \<^verbatim>\<open>NaN\<close> with a number is false.
\<close>

definition notnull :: "cell \<Rightarrow> bool" where
  "notnull x = (case x of Null \<Rightarrow> False | _ \<Rightarrow> True)"

definition pandas_age :: "date \<Rightarrow> cell \<Rightarrow> cell" where
  "pandas_age now x = (case x of Day d \<Rightarrow> Num (year now - year d) | _ \<Rightarrow> Null)"

definition pandas_days_since :: "date \<Rightarrow> cell \<Rightarrow> cell" where
  "pandas_days_since now x = (case x of Day d \<Rightarrow> Num (ordinal now - ordinal d) | _ \<Rightarrow> Null)"

definition gt_num :: "cell \<Rightarrow> int \<Rightarrow> bool" where
  "gt_num x n = (case x of Num k \<Rightarrow> k > n | _ \<Rightarrow> False)"

definition pandas_consulted_recently :: "cell \<Rightarrow> cell" where
  "pandas_consulted_recently x =
     (if gt_num x 30 then Str ''Yes'' else if notnull x then Str ''No'' else Str ''Unknown'')"

text \<open>
  PySpark, \<^verbatim>\<open>add_derived_columns\<close>:
  \<^verbatim>\<open>
  withColumn("Age", year(current_date()) - year(latest_data["DOB"]))
  withColumn("Days_Since_Last_Consulted", datediff(current_date(), latest_data["Last_Consulted_Date"]))
  withColumn("Consulted_Recently",
      when(datediff(current_date(), latest_data["Last_Consulted_Date"]) <= 30, "Yes")
      .when(datediff(current_date(), latest_data["Last_Consulted_Date"]) > 30, "No")
      .otherwise("Unknown"))
  \<close>
  SQL expressions are three-valued: an operation on \<^verbatim>\<open>NULL\<close> is \<^verbatim>\<open>NULL\<close>, and
  a \<^verbatim>\<open>when\<close> branch is taken only when its condition is true.
\<close>

definition datediff :: "date \<Rightarrow> cell \<Rightarrow> int option" where
  "datediff today x = (case x of Day d \<Rightarrow> Some (ordinal today - ordinal d) | _ \<Rightarrow> None)"

definition year_of :: "cell \<Rightarrow> int option" where
  "year_of x = (case x of Day d \<Rightarrow> Some (year d) | _ \<Rightarrow> None)"

definition sql_le :: "int option \<Rightarrow> int \<Rightarrow> bool option" where
  "sql_le a n = map_option (\<lambda>k. k \<le> n) a"

definition sql_gt :: "int option \<Rightarrow> int \<Rightarrow> bool option" where
  "sql_gt a n = map_option (\<lambda>k. k > n) a"

definition num_or_null :: "int option \<Rightarrow> cell" where
  "num_or_null a = (case a of Some k \<Rightarrow> Num k | None \<Rightarrow> Null)"

fun when_otherwise :: "(bool option \<times> cell) list \<Rightarrow> cell \<Rightarrow> cell" where
  "when_otherwise [] other = other"
| "when_otherwise ((c, v) # rest) other = (if c = Some True then v else when_otherwise rest other)"

definition spark_age :: "date \<Rightarrow> cell \<Rightarrow> cell" where
  "spark_age today dob = num_or_null (map_option (\<lambda>y. year today - y) (year_of dob))"

definition spark_days_since :: "date \<Rightarrow> cell \<Rightarrow> cell" where
  "spark_days_since today lcd = num_or_null (datediff today lcd)"

definition spark_consulted_recently :: "date \<Rightarrow> cell \<Rightarrow> cell" where
  "spark_consulted_recently today lcd =
     when_otherwise
       [(sql_le (datediff today lcd) 30, Str ''Yes''),
        (sql_gt (datediff today lcd) 30, Str ''No'')]
       (Str ''Unknown'')"

subsection \<open>Text\<close>

text \<open>
  The input file is a list of lines without their terminators. \<open>split_on\<close> is
  Python's \<^verbatim>\<open>str.split(sep)\<close> (and Spark's \<^verbatim>\<open>split\<close> with limit \<open>-1\<close>): it keeps empty
  tokens, so a string with \<open>n\<close> separators has \<open>n + 1\<close> tokens. \<open>strip\<close> is
  \<^verbatim>\<open>str.strip()\<close> on ASCII white space.
\<close>

definition startswith :: "string \<Rightarrow> string \<Rightarrow> bool" where
  "startswith s p = (take (length p) s = p)"

fun split_on :: "char \<Rightarrow> string \<Rightarrow> string list" where
  "split_on sep [] = [[]]"
| "split_on sep (c # cs) =
     (if c = sep then [] # split_on sep cs
      else (case split_on sep cs of
              tok # toks \<Rightarrow> (c # tok) # toks
            | [] \<Rightarrow> [[c]]))"

definition whitespace :: "char \<Rightarrow> bool" where
  "whitespace c =
     (c = CHR '' '' \<or> c = CHR 0x09 \<or> c = CHR 0x0A \<or> c = CHR 0x0B \<or> c = CHR 0x0C \<or> c = CHR 0x0D)"

definition strip :: "string \<Rightarrow> string" where
  "strip s = rev (dropWhile whitespace (rev (dropWhile whitespace s)))"

definition to_lower :: "char \<Rightarrow> char" where
  "to_lower c =
     (case map_of (zip ''ABCDEFGHIJKLMNOPQRSTUVWXYZ'' ''abcdefghijklmnopqrstuvwxyz'') c of
        Some l \<Rightarrow> l
      | None \<Rightarrow> c)"

definition lower :: "string \<Rightarrow> string" where
  "lower s = map to_lower s"

subsection \<open>Date literals\<close>

text \<open>
  \<^verbatim>\<open>pd.to_datetime(col, format='%Y%m%d' | '%d%m%Y', errors='coerce')\<close> and
  \<^verbatim>\<open>to_date(col, "yyyyMMdd" | "ddMMyyyy")\<close> are calls into the libraries. Which
  literals a library reads as a date under a format is not written in the repository, so it
  is not written here either: a run is given \<open>parse\<close>, the library's reading of a string
  under a format, which is a date or nothing. What is modelled is what the programs ask for:
  which format goes with which column, and that a string the library cannot read becomes null
  (\<^verbatim>\<open>errors='coerce'\<close> in pandas, the result \<^verbatim>\<open>NULL\<close> of \<^verbatim>\<open>to_date\<close> in Spark).
  A null stays null, and a cell that already is a date stays that date.
\<close>

datatype date_format = YYYYMMDD | DDMMYYYY

type_synonym parser = "date_format \<Rightarrow> string \<Rightarrow> date option"

definition pandas_to_datetime :: "parser \<Rightarrow> date_format \<Rightarrow> cell \<Rightarrow> cell" where
  "pandas_to_datetime parse fmt x =
     (case x of
        Str s \<Rightarrow> (case parse fmt s of Some d \<Rightarrow> Day d | None \<Rightarrow> Null)
      | Day d \<Rightarrow> Day d
      | _ \<Rightarrow> Null)"

definition spark_to_date :: "parser \<Rightarrow> date_format \<Rightarrow> cell \<Rightarrow> cell" where
  "spark_to_date parse fmt x =
     (case x of
        Str s \<Rightarrow> (case parse fmt s of Some d \<Rightarrow> Day d | None \<Rightarrow> Null)
      | Day d \<Rightarrow> Day d
      | _ \<Rightarrow> Null)"

subsection \<open>Data frames\<close>

text \<open>
  A row binds column names to cells, in the order of the columns. A frame keeps its column
  names beside its rows, since an empty frame still has columns. Every exception that a
  run can raise is a value of \<open>error\<close>; a function that can raise returns
  \<open>error + result\<close>.

  Columns are found by name. pandas compares names as they are; Spark SQL compares them
  without regard to case (the PySpark program writes \<^verbatim>\<open>Customer_ID\<close> for the column
  that the header calls \<^verbatim>\<open>Customer_Id\<close>). The parameter \<open>nrm\<close> of the functions
  below is that normalisation: \<open>id\<close> for pandas, \<open>lower\<close> for Spark. A name that no
  column has raises (\<^verbatim>\<open>KeyError\<close>, \<^verbatim>\<open>AnalysisException\<close>); so does, in this model,
  a name that several columns have: Spark refuses the ambiguous reference, and pandas
  hands the lambdas of the program a whole frame, on which they raise.
\<close>

type_synonym row = "(string \<times> cell) list"

record frame =
  columns :: "string list"
  rws :: "row list"

datatype error =
    HeaderNotFound
  | EmptyDataError
  | ParserError
  | IndexError
  | LengthMismatch
  | KeyError string
  | AmbiguousColumn string
  | WriteFailure string

fun and_then :: "error + 'a \<Rightarrow> ('a \<Rightarrow> error + 'b) \<Rightarrow> error + 'b" where
  "and_then (Inl e) f = Inl e"
| "and_then (Inr x) f = f x"

definition resolve :: "(string \<Rightarrow> string) \<Rightarrow> string list \<Rightarrow> string \<Rightarrow> error + unit" where
  "resolve nrm cols name =
     (case filter (\<lambda>c. nrm c = nrm name) cols of
        [] \<Rightarrow> Inl (KeyError name)
      | [c] \<Rightarrow> Inr ()
      | _ \<Rightarrow> Inl (AmbiguousColumn name))"

definition cell_at :: "(string \<Rightarrow> string) \<Rightarrow> string \<Rightarrow> row \<Rightarrow> cell" where
  "cell_at nrm name r =
     (case map_of (map (\<lambda>(k, v). (nrm k, v)) r) (nrm name) of Some v \<Rightarrow> v | None \<Rightarrow> Null)"

text \<open>
  \<^verbatim>\<open>df[target] = df[source].apply(f)\<close> and \<^verbatim>\<open>df.withColumn(target, f(df[source]))\<close>:
  a column of that name is replaced where it stands (Spark gives it the new spelling of
  the name), otherwise the column is added at the end.
\<close>

definition set_cell :: "(string \<Rightarrow> string) \<Rightarrow> string \<Rightarrow> cell \<Rightarrow> row \<Rightarrow> row" where
  "set_cell nrm target v r =
     (if list_ex (\<lambda>(k, _). nrm k = nrm target) r
      then map (\<lambda>(k, old). if nrm k = nrm target then (target, v) else (k, old)) r
      else r @ [(target, v)])"

definition set_name :: "(string \<Rightarrow> string) \<Rightarrow> string \<Rightarrow> string list \<Rightarrow> string list" where
  "set_name nrm target cols =
     (if list_ex (\<lambda>c. nrm c = nrm target) cols
      then map (\<lambda>c. if nrm c = nrm target then target else c) cols
      else cols @ [target])"

definition assign_col ::
  "(string \<Rightarrow> string) \<Rightarrow> string \<Rightarrow> string \<Rightarrow> (cell \<Rightarrow> cell) \<Rightarrow> frame \<Rightarrow> error + frame" where
  "assign_col nrm target source f df =
     and_then (resolve nrm (columns df) source) (\<lambda>_.
       Inr \<lparr>columns = set_name nrm target (columns df),
            rws = map (\<lambda>r. set_cell nrm target (f (cell_at nrm source r)) r) (rws df)\<rparr>)"

text \<open>\<^verbatim>\<open>df[df[name].notnull()]\<close> and \<^verbatim>\<open>df.filter(df[name].isNotNull())\<close>.\<close>

definition filter_notnull :: "(string \<Rightarrow> string) \<Rightarrow> string \<Rightarrow> frame \<Rightarrow> error + frame" where
  "filter_notnull nrm name df =
     and_then (resolve nrm (columns df) name) (\<lambda>_.
       Inr (df\<lparr>rws := filter (\<lambda>r. notnull (cell_at nrm name r)) (rws df)\<rparr>))"

subsection \<open>Ordering and grouping\<close>

text \<open>
  Descending order on a date column with nulls last: what
  \<^verbatim>\<open>sort_values("Last_Consulted_Date", ascending=False)\<close> gives (pandas sorts the values
  that are not null and puts the null rows after them) and what
  \<^verbatim>\<open>orderBy(data["Last_Consulted_Date"].desc())\<close> gives (Spark's \<^verbatim>\<open>desc\<close> is nulls
  last). The order among rows of equal date is not fixed by either library; the model keeps
  them in their order of arrival. After the conversion of the date columns the column holds
  dates and nulls only.
\<close>

definition day_number :: "cell \<Rightarrow> int" where
  "day_number x = (case x of Day d \<Rightarrow> ordinal d | _ \<Rightarrow> 0)"

definition sort_desc_nulls_last :: "(row \<Rightarrow> cell) \<Rightarrow> row list \<Rightarrow> row list" where
  "sort_desc_nulls_last col rs =
     rev (sort_key (\<lambda>r. day_number (col r)) (rev (filter (\<lambda>r. notnull (col r)) rs)))
     @ filter (\<lambda>r. \<not> notnull (col r)) rs"

text \<open>\<^verbatim>\<open>Series.unique()\<close>, \<^verbatim>\<open>distinct()\<close>: the values in the order of their first appearance.\<close>

definition unique :: "'a list \<Rightarrow> 'a list" where
  "unique xs = rev (remdups (rev xs))"

text \<open>
  \<^verbatim>\<open>groupby(key).head(1)\<close>: the rows that are the first of their group, in the order
  of the frame; pandas leaves rows with a null key out of every group.
\<close>

fun groupby_head1 :: "(row \<Rightarrow> cell) \<Rightarrow> cell list \<Rightarrow> row list \<Rightarrow> row list" where
  "groupby_head1 key seen [] = []"
| "groupby_head1 key seen (r # rs) =
     (if notnull (key r) \<and> key r \<notin> set seen then r # groupby_head1 key (key r # seen) rs
      else groupby_head1 key seen rs)"

subsection \<open>The output\<close>

text \<open>
  The storage is outside the programs. A run is given \<open>fails\<close>, which says for which
  artifact names the write raises, and returns the artifacts it has written, in order,
  with the error that ended it, if any. An artifact is named by its key
  \<^verbatim>\<open>Table_<Country>\<close>; the directory and the file format belong to the storage. Python
  prints a null country as \<^verbatim>\<open>None\<close>. The country column holds strings and nulls only.
\<close>

type_synonym artifact = "string \<times> frame"

type_synonym outcome = "error option \<times> artifact list"

definition table_name :: "cell \<Rightarrow> string" where
  "table_name country = ''Table_'' @ (case country of Str s \<Rightarrow> s | _ \<Rightarrow> ''None'')"

text \<open>
  \<^verbatim>\<open>frame[frame["Country"] == country]\<close>: a comparison with a null is never true, in
  pandas as in SQL.
\<close>

definition eq_cell :: "cell \<Rightarrow> cell \<Rightarrow> bool" where
  "eq_cell a b = (notnull a \<and> notnull b \<and> a = b)"

subsection \<open>The pandas program\<close>

text \<open>
  \<^verbatim>\<open>extract_header\<close>: the first line that starts with \<^verbatim>\<open>|H|\<close>, stripped, split, without
  its first two tokens; \<^verbatim>\<open>ValueError\<close> when there is none.
\<close>

fun pandas_extract_header :: "string list \<Rightarrow> error + string list" where
  "pandas_extract_header [] = Inl HeaderNotFound"
| "pandas_extract_header (line # rest) =
     (if startswith line ''|H|'' then Inr (drop 2 (split_on CHR ''|'' (strip line)))
      else pandas_extract_header rest)"

text \<open>
  \<^verbatim>\<open>pd.read_csv(file_path, sep="|", header=None)\<close>, a library call, by its defaults:
  blank lines are skipped; the first record fixes the number of columns; a later record
  with more fields raises \<^verbatim>\<open>ParserError\<close>, one with fewer is filled up with
  \<^verbatim>\<open>NaN\<close>; an empty field and the default missing-value literals are \<^verbatim>\<open>NaN\<close>.
  Every column also holds the header line's token, a column name, so the columns stay
  columns of strings. Quoted fields are not modelled.
\<close>

definition na_values :: "string list" where
  "na_values =
     ['''', ''#N/A'', ''#N/A N/A'', ''#NA'', ''-1.#IND'', ''-1.#QNAN'', ''-NaN'', ''-nan'',
      ''1.#IND'', ''1.#QNAN'', ''<NA>'', ''N/A'', ''NA'', ''NULL'', ''NaN'', ''None'', ''n/a'',
      ''nan'', ''null'']"

definition csv_cell :: "string \<Rightarrow> cell" where
  "csv_cell s = (if s \<in> set na_values then Null else Str s)"

definition blank_line :: "string \<Rightarrow> bool" where
  "blank_line l = list_all (\<lambda>c. c = CHR '' '' \<or> c = CHR 0x09) l"

definition read_csv :: "string list \<Rightarrow> error + cell list list" where
  "read_csv lines =
     (case map (split_on CHR ''|'') (filter (\<lambda>l. \<not> blank_line l) lines) of
        [] \<Rightarrow> Inl EmptyDataError
      | first # later \<Rightarrow>
          if list_ex (\<lambda>r. length first < length r) later then Inl ParserError
          else Inr (map (\<lambda>r. map csv_cell r @ replicate (length first - length r) Null)
                        (first # later)))"

text \<open>
  \<^verbatim>\<open>data[data.iloc[:, 1] == 'D'].iloc[:, 2:]\<close>, then \<^verbatim>\<open>staging_df.columns = header\<close>.
\<close>

definition tagged_D :: "cell list \<Rightarrow> bool" where
  "tagged_D r = (case r of _ # tag # _ \<Rightarrow> tag = Str ''D'' | _ \<Rightarrow> False)"

definition data_rows :: "cell list list \<Rightarrow> error + cell list list" where
  "data_rows data =
     (case data of
        [] \<Rightarrow> Inl IndexError
      | first # _ \<Rightarrow>
          if length first < 2 then Inl IndexError
          else Inr (map (drop 2) (filter tagged_D data)))"

definition set_columns :: "string list \<Rightarrow> nat \<Rightarrow> cell list list \<Rightarrow> error + frame" where
  "set_columns header width body =
     (if length header \<noteq> width then Inl LengthMismatch
      else Inr \<lparr>columns = header, rws = map (zip header) body\<rparr>)"

text \<open>
  \<^verbatim>\<open>validate_data\<close>: six length rules
  \<^verbatim>\<open>df[c] = df[c].apply(lambda x: x if pd.notnull(x) and len(x) <= n else None)\<close>, then
  the loop over the three mandatory fields.
\<close>

definition keep_if_short :: "nat \<Rightarrow> cell \<Rightarrow> cell" where
  "keep_if_short n x = (case x of Str s \<Rightarrow> if length s \<le> n then x else Null | _ \<Rightarrow> Null)"

definition pandas_validate_data :: "frame \<Rightarrow> error + frame" where
  "pandas_validate_data df =
     and_then (assign_col id ''Customer_Name'' ''Customer_Name'' (keep_if_short 255) df) (\<lambda>df.
     and_then (assign_col id ''Customer_Id'' ''Customer_Id'' (keep_if_short 18) df) (\<lambda>df.
     and_then (assign_col id ''Vaccination_Id'' ''Vaccination_Id'' (keep_if_short 5) df) (\<lambda>df.
     and_then (assign_col id ''Dr_Name'' ''Dr_Name'' (keep_if_short 255) df) (\<lambda>df.
     and_then (assign_col id ''State'' ''State'' (keep_if_short 5) df) (\<lambda>df.
     and_then (assign_col id ''Country'' ''Country'' (keep_if_short 5) df) (\<lambda>df.
     and_then (filter_notnull id ''Customer_Name'' df) (\<lambda>df.
     and_then (filter_notnull id ''Customer_Id'' df) (\<lambda>df.
     filter_notnull id ''Open_Date'' df))))))))"

text \<open>
  \<^verbatim>\<open>process_and_load_staging\<close>: read, keep the \<^verbatim>\<open>D\<close> rows, name the columns, convert
  the date columns (\<^verbatim>\<open>Open_Date\<close>, \<^verbatim>\<open>Last_Consulted_Date\<close>, \<^verbatim>\<open>DOB\<close>, in that
  order), validate.
\<close>

definition pandas_convert_dates :: "parser \<Rightarrow> frame \<Rightarrow> error + frame" where
  "pandas_convert_dates parse df =
     and_then (assign_col id ''Open_Date'' ''Open_Date'' (pandas_to_datetime parse YYYYMMDD) df) (\<lambda>df.
     and_then (assign_col id ''Last_Consulted_Date'' ''Last_Consulted_Date''
                 (pandas_to_datetime parse YYYYMMDD) df) (\<lambda>df.
     assign_col id ''DOB'' ''DOB'' (pandas_to_datetime parse DDMMYYYY) df))"

definition pandas_bind_rows :: "string list \<Rightarrow> string list \<Rightarrow> error + frame" where
  "pandas_bind_rows lines header =
     and_then (read_csv lines) (\<lambda>data.
     and_then (data_rows data) (\<lambda>body.
     set_columns header (length (hd data) - 2) body))"

definition process_and_load_staging ::
  "parser \<Rightarrow> string list \<Rightarrow> string list \<Rightarrow> error + frame" where
  "process_and_load_staging parse lines header =
     and_then (pandas_bind_rows lines header) (\<lambda>staging_df.
     and_then (pandas_convert_dates parse staging_df) pandas_validate_data)"

text \<open>
  \<^verbatim>\<open>create_and_populate_country_tables\<close>: the latest record of every customer over all
  countries; the countries of the staging frame; for each country its rows among the latest
  records, the three derived columns, and the write. An exception inside the loop leaves
  the loop and the function.
\<close>

definition global_latest_records :: "frame \<Rightarrow> error + frame" where
  "global_latest_records staging_df =
     and_then (resolve id (columns staging_df) ''Last_Consulted_Date'') (\<lambda>_.
     and_then (resolve id (columns staging_df) ''Customer_Id'') (\<lambda>_.
       Inr (staging_df\<lparr>rws :=
              groupby_head1 (cell_at id ''Customer_Id'') []
                (sort_desc_nulls_last (cell_at id ''Last_Consulted_Date'') (rws staging_df))\<rparr>)))"

definition pandas_country_table :: "date \<Rightarrow> frame \<Rightarrow> cell \<Rightarrow> error + frame" where
  "pandas_country_table now latest country =
     and_then (resolve id (columns latest) ''Country'') (\<lambda>_.
     and_then (assign_col id ''Age'' ''DOB'' (pandas_age now)
                 (latest\<lparr>rws := filter (\<lambda>r. eq_cell (cell_at id ''Country'' r) country)
                                      (rws latest)\<rparr>)) (\<lambda>df.
     and_then (assign_col id ''Days_Since_Last_Consulted'' ''Last_Consulted_Date''
                 (pandas_days_since now) df) (\<lambda>df.
     assign_col id ''Consulted_Recently'' ''Days_Since_Last_Consulted''
       pandas_consulted_recently df)))"

fun pandas_country_loop ::
  "(string \<Rightarrow> bool) \<Rightarrow> date \<Rightarrow> frame \<Rightarrow> cell list \<Rightarrow> artifact list \<Rightarrow> outcome" where
  "pandas_country_loop fails now latest [] written = (None, written)"
| "pandas_country_loop fails now latest (country # rest) written =
     (case pandas_country_table now latest country of
        Inl e \<Rightarrow> (Some e, written)
      | Inr country_df \<Rightarrow>
          if fails (table_name country) then (Some (WriteFailure (table_name country)), written)
          else pandas_country_loop fails now latest rest
                 (written @ [(table_name country, country_df)]))"

definition create_and_populate_country_tables ::
  "(string \<Rightarrow> bool) \<Rightarrow> date \<Rightarrow> frame \<Rightarrow> outcome" where
  "create_and_populate_country_tables fails now staging_df =
     (case global_latest_records staging_df of
        Inl e \<Rightarrow> (Some e, [])
      | Inr latest \<Rightarrow>
          (case resolve id (columns staging_df) ''Country'' of
             Inl e \<Rightarrow> (Some e, [])
           | Inr _ \<Rightarrow>
               pandas_country_loop fails now latest
                 (unique (map (cell_at id ''Country'') (rws staging_df))) []))"

text \<open>\<^verbatim>\<open>main\<close>: any exception is logged and ends the run.\<close>

definition pandas_main ::
  "parser \<Rightarrow> (string \<Rightarrow> bool) \<Rightarrow> date \<Rightarrow> string list \<Rightarrow> outcome" where
  "pandas_main parse fails now lines =
     (case pandas_extract_header lines of
        Inl e \<Rightarrow> (Some e, [])
      | Inr header \<Rightarrow>
          (case process_and_load_staging parse lines header of
             Inl e \<Rightarrow> (Some e, [])
           | Inr staging_df \<Rightarrow> create_and_populate_country_tables fails now staging_df))"

subsection \<open>The PySpark program\<close>

text \<open>
  \<^verbatim>\<open>extract_header\<close>: the first line that starts with \<^verbatim>\<open>|H|\<close>, split, without its
  first two tokens; \<^verbatim>\<open>ValueError\<close> when there is none.
\<close>

definition spark_extract_header :: "string list \<Rightarrow> error + string list" where
  "spark_extract_header raw_data =
     (case filter (\<lambda>l. startswith l ''|H|'') raw_data of
        [] \<Rightarrow> Inl HeaderNotFound
      | header_row # _ \<Rightarrow> Inr (drop 2 (split_on CHR ''|'' header_row)))"

text \<open>
  \<^verbatim>\<open>process_data\<close>: the lines that start with \<^verbatim>\<open>|D|\<close>, split, and for every index
  \<open>i\<close> of the header the token \<open>i + 2\<close> under the name \<open>header[i]\<close>. An index past
  the end of a Spark array is \<^verbatim>\<open>NULL\<close>.
\<close>

definition get_item :: "string list \<Rightarrow> nat \<Rightarrow> cell" where
  "get_item toks i = (if i < length toks then Str (toks ! i) else Null)"

definition select_fields :: "string list \<Rightarrow> string list \<Rightarrow> row" where
  "select_fields header toks = map (\<lambda>i. (header ! i, get_item toks (i + 2))) [0..<length header]"

definition process_data :: "string list \<Rightarrow> string list \<Rightarrow> frame" where
  "process_data raw_data header =
     \<lparr>columns = header,
      rws = map (\<lambda>l. select_fields header (split_on CHR ''|'' l))
                (filter (\<lambda>l. startswith l ''|D|'') raw_data)\<rparr>"

text \<open>\<^verbatim>\<open>convert_dates\<close>: three \<^verbatim>\<open>withColumn\<close> calls with \<^verbatim>\<open>to_date\<close>.\<close>

definition spark_convert_dates :: "parser \<Rightarrow> frame \<Rightarrow> error + frame" where
  "spark_convert_dates parse data =
     and_then (assign_col lower ''Open_Date'' ''Open_Date'' (spark_to_date parse YYYYMMDD) data) (\<lambda>data.
     and_then (assign_col lower ''Last_Consulted_Date'' ''Last_Consulted_Date''
                 (spark_to_date parse YYYYMMDD) data) (\<lambda>data.
     assign_col lower ''DOB'' ''DOB'' (spark_to_date parse DDMMYYYY) data))"

text \<open>
  \<^verbatim>\<open>validate_data\<close>: six rules
  \<^verbatim>\<open>withColumn(c, when(length(data[c]) <= n, data[c]).otherwise(None))\<close>, then three
  \<^verbatim>\<open>isNotNull\<close> filters. The six columns hold strings and nulls.
\<close>

definition str_length :: "cell \<Rightarrow> int option" where
  "str_length x = (case x of Str s \<Rightarrow> Some (int (length s)) | _ \<Rightarrow> None)"

definition when_short :: "int \<Rightarrow> cell \<Rightarrow> cell" where
  "when_short n x = when_otherwise [(sql_le (str_length x) n, x)] Null"

definition spark_validate_data :: "frame \<Rightarrow> error + frame" where
  "spark_validate_data data =
     and_then (assign_col lower ''Customer_Name'' ''Customer_Name'' (when_short 255) data) (\<lambda>data.
     and_then (assign_col lower ''Customer_ID'' ''Customer_ID'' (when_short 18) data) (\<lambda>data.
     and_then (assign_col lower ''Vaccination_Id'' ''Vaccination_Id'' (when_short 5) data) (\<lambda>data.
     and_then (assign_col lower ''Dr_Name'' ''Dr_Name'' (when_short 255) data) (\<lambda>data.
     and_then (assign_col lower ''State'' ''State'' (when_short 5) data) (\<lambda>data.
     and_then (assign_col lower ''Country'' ''Country'' (when_short 5) data) (\<lambda>data.
     and_then (filter_notnull lower ''Customer_Name'' data) (\<lambda>data.
     and_then (filter_notnull lower ''Customer_ID'' data) (\<lambda>data.
     filter_notnull lower ''Open_Date'' data))))))))"

text \<open>
  \<^verbatim>\<open>get_latest_data\<close>: \<^verbatim>\<open>row_number()\<close> over the window partitioned by
  \<^verbatim>\<open>Customer_ID\<close> and ordered by \<^verbatim>\<open>Last_Consulted_Date\<close> descending, the rows with
  number 1, and the helper column dropped. Spark fixes neither the order of the groups nor
  the order among equal dates; the model takes the groups in the order of their first row.
\<close>

definition first_of_each_group :: "(row \<Rightarrow> cell) \<Rightarrow> (row \<Rightarrow> cell) \<Rightarrow> row list \<Rightarrow> row list" where
  "first_of_each_group key col rs =
     concat (map (\<lambda>k. take 1 (sort_desc_nulls_last col (filter (\<lambda>r. key r = k) rs)))
                 (unique (map key rs)))"

definition drop_column :: "(string \<Rightarrow> string) \<Rightarrow> string \<Rightarrow> frame \<Rightarrow> frame" where
  "drop_column nrm name df =
     \<lparr>columns = filter (\<lambda>c. nrm c \<noteq> nrm name) (columns df),
      rws = map (filter (\<lambda>(k, _). nrm k \<noteq> nrm name)) (rws df)\<rparr>"

definition get_latest_data :: "frame \<Rightarrow> error + frame" where
  "get_latest_data data =
     and_then (resolve lower (columns data) ''Last_Consulted_Date'') (\<lambda>_.
     and_then (resolve lower (columns data) ''Customer_ID'') (\<lambda>_.
       Inr (drop_column lower ''row_number''
              (data\<lparr>rws :=
                 first_of_each_group (cell_at lower ''Customer_ID'')
                   (cell_at lower ''Last_Consulted_Date'') (rws data)\<rparr>))))"

text \<open>\<^verbatim>\<open>add_derived_columns\<close>, with \<open>today\<close> for \<^verbatim>\<open>current_date()\<close>.\<close>

definition add_derived_columns :: "date \<Rightarrow> frame \<Rightarrow> error + frame" where
  "add_derived_columns today latest_data =
     and_then (assign_col lower ''Age'' ''DOB'' (spark_age today) latest_data) (\<lambda>df.
     and_then (assign_col lower ''Days_Since_Last_Consulted'' ''Last_Consulted_Date''
                 (spark_days_since today) df) (\<lambda>df.
     assign_col lower ''Consulted_Recently'' ''Last_Consulted_Date''
       (spark_consulted_recently today) df))"

text \<open>
  \<^verbatim>\<open>save_country_data\<close>: the distinct countries of the latest records, and for each the
  rows of that country written under \<^verbatim>\<open>Table_<country>\<close>. An exception inside the loop
  leaves the loop and the function.
\<close>

fun spark_country_loop ::
  "(string \<Rightarrow> bool) \<Rightarrow> frame \<Rightarrow> cell list \<Rightarrow> artifact list \<Rightarrow> outcome" where
  "spark_country_loop fails latest_data [] written = (None, written)"
| "spark_country_loop fails latest_data (country # rest) written =
     (if fails (table_name country) then (Some (WriteFailure (table_name country)), written)
      else spark_country_loop fails latest_data rest
             (written @
              [(table_name country,
                latest_data\<lparr>rws := filter (\<lambda>r. eq_cell (cell_at lower ''Country'' r) country)
                                          (rws latest_data)\<rparr>)]))"

definition save_country_data :: "(string \<Rightarrow> bool) \<Rightarrow> frame \<Rightarrow> outcome" where
  "save_country_data fails latest_data =
     (case resolve lower (columns latest_data) ''Country'' of
        Inl e \<Rightarrow> (Some e, [])
      | Inr _ \<Rightarrow>
          spark_country_loop fails latest_data
            (unique (map (cell_at lower ''Country'') (rws latest_data))) [])"

text \<open>\<^verbatim>\<open>main\<close>: any exception is printed and ends the run.\<close>

definition spark_staging :: "parser \<Rightarrow> string list \<Rightarrow> error + frame" where
  "spark_staging parse raw_data =
     and_then (spark_extract_header raw_data) (\<lambda>header.
     and_then (spark_convert_dates parse (process_data raw_data header)) spark_validate_data)"

definition spark_main ::
  "parser \<Rightarrow> (string \<Rightarrow> bool) \<Rightarrow> date \<Rightarrow> string list \<Rightarrow> outcome" where
  "spark_main parse fails today raw_data =
     (case and_then (spark_staging parse raw_data) (\<lambda>data.
           and_then (get_latest_data data) (add_derived_columns today)) of
        Inl e \<Rightarrow> (Some e, [])
      | Inr latest_data \<Rightarrow> save_country_data fails latest_data)"

subsection \<open>One row through the column steps\<close>

text \<open>
  The programs work column by column. These are the same steps seen from one row: the six
  length rules of \<^verbatim>\<open>validate_data\<close> and the three derived columns, in the order in
  which the programs apply them.
\<close>

definition pandas_length_rules :: "row \<Rightarrow> row" where
  "pandas_length_rules r =
     (let r = set_cell id ''Customer_Name'' (keep_if_short 255 (cell_at id ''Customer_Name'' r)) r;
          r = set_cell id ''Customer_Id'' (keep_if_short 18 (cell_at id ''Customer_Id'' r)) r;
          r = set_cell id ''Vaccination_Id'' (keep_if_short 5 (cell_at id ''Vaccination_Id'' r)) r;
          r = set_cell id ''Dr_Name'' (keep_if_short 255 (cell_at id ''Dr_Name'' r)) r;
          r = set_cell id ''State'' (keep_if_short 5 (cell_at id ''State'' r)) r
      in set_cell id ''Country'' (keep_if_short 5 (cell_at id ''Country'' r)) r)"

definition spark_length_rules :: "row \<Rightarrow> row" where
  "spark_length_rules r =
     (let r = set_cell lower ''Customer_Name'' (when_short 255 (cell_at lower ''Customer_Name'' r)) r;
          r = set_cell lower ''Customer_ID'' (when_short 18 (cell_at lower ''Customer_ID'' r)) r;
          r = set_cell lower ''Vaccination_Id'' (when_short 5 (cell_at lower ''Vaccination_Id'' r)) r;
          r = set_cell lower ''Dr_Name'' (when_short 255 (cell_at lower ''Dr_Name'' r)) r;
          r = set_cell lower ''State'' (when_short 5 (cell_at lower ''State'' r)) r
      in set_cell lower ''Country'' (when_short 5 (cell_at lower ''Country'' r)) r)"

definition pandas_derived_row :: "date \<Rightarrow> row \<Rightarrow> row" where
  "pandas_derived_row now r =
     (let r = set_cell id ''Age'' (pandas_age now (cell_at id ''DOB'' r)) r;
          r = set_cell id ''Days_Since_Last_Consulted''
                (pandas_days_since now (cell_at id ''Last_Consulted_Date'' r)) r
      in set_cell id ''Consulted_Recently''
           (pandas_consulted_recently (cell_at id ''Days_Since_Last_Consulted'' r)) r)"

definition spark_derived_row :: "date \<Rightarrow> row \<Rightarrow> row" where
  "spark_derived_row today r =
     (let r = set_cell lower ''Age'' (spark_age today (cell_at lower ''DOB'' r)) r;
          r = set_cell lower ''Days_Since_Last_Consulted''
                (spark_days_since today (cell_at lower ''Last_Consulted_Date'' r)) r
      in set_cell lower ''Consulted_Recently''
           (spark_consulted_recently today (cell_at lower ''Last_Consulted_Date'' r)) r)"

subsection \<open>A sample file\<close>

text \<open>
  One file on which the statements below are tried: a header and four data lines. The first
  two are records of one customer in two countries, the second the later one; the third has
  an \<^verbatim>\<open>Open_Date\<close> that is not a date; the fourth has a country of seven characters.
  The run is dated 2024-01-31; \<open>sample_parse\<close> is what the parsers make of the literals
  of this file (the four literals that are dates, and nothing else). The frames are what
  the stages of the two programs make of the file; the facts \<open>sample_\<dots>\<close> below check
  each of them by evaluation.
\<close>

definition sample_file :: "string list" where
  "sample_file =
     [''|H|Customer_Name|Customer_Id|Open_Date|Last_Consulted_Date|Vaccination_Id|Dr_Name|State|Country|DOB'',
      ''|D|Alex|123457|20101012|20231231|MVD|Paul|SA|USA|06031987'',
      ''|D|Alex|123457|20101012|20240101|MVD|Paul|SA|IND|06031987'',
      ''|D|John|123458|unknown|20231231|MVD|Paul|SA|USA|06031987'',
      ''|D|Bob|7|20101012|20231231|MVD|Paul|SA|Germany|06031987'']"

definition sample_parse :: parser where
  "sample_parse fmt s =
     map_of
       [((YYYYMMDD, ''20101012''), YMD 2010 10 12),
        ((YYYYMMDD, ''20231231''), YMD 2023 12 31),
        ((YYYYMMDD, ''20240101''), YMD 2024 1 1),
        ((DDMMYYYY, ''06031987''), YMD 1987 3 6)]
       (fmt, s)"

definition sample_today :: date where
  "sample_today = YMD 2024 1 31"

definition never :: "string \<Rightarrow> bool" where
  "never name = False"

definition sample_header :: "string list" where
  "sample_header =
     [''Customer_Name'', ''Customer_Id'', ''Open_Date'', ''Last_Consulted_Date'',
      ''Vaccination_Id'', ''Dr_Name'', ''State'', ''Country'',
      ''DOB'']"

definition spark_names :: "string list" where
  "spark_names =
     [''Customer_Name'', ''Customer_ID'', ''Open_Date'', ''Last_Consulted_Date'',
      ''Vaccination_Id'', ''Dr_Name'', ''State'', ''Country'',
      ''DOB'']"

definition derived_names :: "string list" where
  "derived_names = [''Age'', ''Days_Since_Last_Consulted'', ''Consulted_Recently'']"

definition alex_usa_raw :: "cell list" where
  "alex_usa_raw =
     [Str ''Alex'', Str ''123457'', Str ''20101012'', Str ''20231231'',
      Str ''MVD'', Str ''Paul'', Str ''SA'', Str ''USA'',
      Str ''06031987'']"

definition alex_ind_raw :: "cell list" where
  "alex_ind_raw =
     [Str ''Alex'', Str ''123457'', Str ''20101012'', Str ''20240101'',
      Str ''MVD'', Str ''Paul'', Str ''SA'', Str ''IND'',
      Str ''06031987'']"

definition john_raw :: "cell list" where
  "john_raw =
     [Str ''John'', Str ''123458'', Str ''unknown'', Str ''20231231'',
      Str ''MVD'', Str ''Paul'', Str ''SA'', Str ''USA'',
      Str ''06031987'']"

definition bob_raw :: "cell list" where
  "bob_raw =
     [Str ''Bob'', Str ''7'', Str ''20101012'', Str ''20231231'',
      Str ''MVD'', Str ''Paul'', Str ''SA'', Str ''Germany'',
      Str ''06031987'']"

definition alex_usa_dated :: "cell list" where
  "alex_usa_dated =
     [Str ''Alex'', Str ''123457'', Day (YMD 2010 10 12), Day (YMD 2023 12 31),
      Str ''MVD'', Str ''Paul'', Str ''SA'', Str ''USA'',
      Day (YMD 1987 3 6)]"

definition alex_ind_dated :: "cell list" where
  "alex_ind_dated =
     [Str ''Alex'', Str ''123457'', Day (YMD 2010 10 12), Day (YMD 2024 1 1),
      Str ''MVD'', Str ''Paul'', Str ''SA'', Str ''IND'',
      Day (YMD 1987 3 6)]"

definition john_dated :: "cell list" where
  "john_dated =
     [Str ''John'', Str ''123458'', Null, Day (YMD 2023 12 31),
      Str ''MVD'', Str ''Paul'', Str ''SA'', Str ''USA'',
      Day (YMD 1987 3 6)]"

definition bob_dated :: "cell list" where
  "bob_dated =
     [Str ''Bob'', Str ''7'', Day (YMD 2010 10 12), Day (YMD 2023 12 31),
      Str ''MVD'', Str ''Paul'', Str ''SA'', Str ''Germany'',
      Day (YMD 1987 3 6)]"

definition bob_valid :: "cell list" where
  "bob_valid =
     [Str ''Bob'', Str ''7'', Day (YMD 2010 10 12), Day (YMD 2023 12 31),
      Str ''MVD'', Str ''Paul'', Str ''SA'', Null,
      Day (YMD 1987 3 6)]"

definition frame_of :: "string list \<Rightarrow> cell list list \<Rightarrow> frame" where
  "frame_of names rows = \<lparr>columns = names, rws = map (zip names) rows\<rparr>"

definition sample_bound :: frame where
  "sample_bound = frame_of sample_header [alex_usa_raw, alex_ind_raw, john_raw, bob_raw]"

definition sample_dated :: frame where
  "sample_dated = frame_of sample_header [alex_usa_dated, alex_ind_dated, john_dated, bob_dated]"

definition pandas_sample_staging :: frame where
  "pandas_sample_staging = frame_of sample_header [alex_usa_dated, alex_ind_dated, bob_valid]"

definition pandas_sample_latest :: frame where
  "pandas_sample_latest = frame_of sample_header [alex_ind_dated, bob_valid]"

definition pandas_sample_output :: "artifact list" where
  "pandas_sample_output =
     [(''Table_USA'', frame_of (sample_header @ derived_names) []),
      (''Table_IND'',
       frame_of (sample_header @ derived_names) [alex_ind_dated @ [Num 37, Num 30, Str ''No'']]),
      (''Table_None'', frame_of (sample_header @ derived_names) [])]"

definition spark_sample_staging :: frame where
  "spark_sample_staging = frame_of spark_names [alex_usa_dated, alex_ind_dated, bob_valid]"

definition spark_sample_latest :: frame where
  "spark_sample_latest = frame_of spark_names [alex_ind_dated, bob_valid]"

definition spark_sample_derived :: frame where
  "spark_sample_derived =
     frame_of (spark_names @ derived_names)
       [alex_ind_dated @ [Num 37, Num 30, Str ''Yes''], bob_valid @ [Num 37, Num 31, Str ''No'']]"

definition spark_sample_output :: "artifact list" where
  "spark_sample_output =
     [(''Table_IND'',
       frame_of (spark_names @ derived_names) [alex_ind_dated @ [Num 37, Num 30, Str ''Yes'']]),
      (''Table_None'', frame_of (spark_names @ derived_names) [])]"

text \<open>
  A storage that fails on one artifact, and two small files: one whose data line has a
  field more than its header line, one whose data line has a field less.
\<close>

definition fails_USA :: "string \<Rightarrow> bool" where
  "fails_USA name = (name = ''Table_USA'')"

definition fails_IND :: "string \<Rightarrow> bool" where
  "fails_IND name = (name = ''Table_IND'')"





section \<open>Properties\<close>

subsection \<open>Auxiliary facts\<close>


lemma and_then_Inr_iff: "and_then m f = Inr y \<longleftrightarrow> (\<exists>x. m = Inr x \<and> f x = Inr y)"
  by (cases m) auto

lemma cell_at_replace:
  "cell_at nrm n (map (\<lambda>(k, old). if nrm k = nrm t then (t, v) else (k, old)) r) =
     (if nrm n = nrm t \<and> list_ex (\<lambda>(k, _). nrm k = nrm t) r then v else cell_at nrm n r)"
  by (induction r) (auto simp: cell_at_def)

lemma cell_at_append_new:
  "\<not> list_ex (\<lambda>(k, _). nrm k = nrm t) r \<Longrightarrow>
     cell_at nrm n (r @ [(t, v)]) = (if nrm n = nrm t then v else cell_at nrm n r)"
  by (induction r) (auto simp: cell_at_def)

lemma cell_at_set_cell:
  "cell_at nrm n (set_cell nrm t v r) = (if nrm n = nrm t then v else cell_at nrm n r)"
  by (simp add: set_cell_def cell_at_replace cell_at_append_new)

lemma assign_col_Inr:
  "assign_col nrm t s f df = Inr df' \<Longrightarrow>
     columns df' = set_name nrm t (columns df) \<and>
     rws df' = map (\<lambda>r. set_cell nrm t (f (cell_at nrm s r)) r) (rws df)"
  by (auto simp: assign_col_def and_then_Inr_iff)

lemma filter_notnull_Inr:
  "filter_notnull nrm n df = Inr df' \<Longrightarrow>
     columns df' = columns df \<and>
     rws df' = filter (\<lambda>r. notnull (cell_at nrm n r)) (rws df)"
  by (auto simp: filter_notnull_def and_then_Inr_iff)


lemma pandas_validate_rows:
  assumes "pandas_validate_data df = Inr df'"
  shows "rws df' =
     filter (\<lambda>r. notnull (cell_at id ''Open_Date'' r))
       (filter (\<lambda>r. notnull (cell_at id ''Customer_Id'' r))
          (filter (\<lambda>r. notnull (cell_at id ''Customer_Name'' r))
             (map pandas_length_rules (rws df))))"
proof -
  from assms obtain d1 d2 d3 d4 d5 d6 d7 d8 where
    s: "assign_col id ''Customer_Name'' ''Customer_Name'' (keep_if_short 255) df = Inr d1"
       "assign_col id ''Customer_Id'' ''Customer_Id'' (keep_if_short 18) d1 = Inr d2"
       "assign_col id ''Vaccination_Id'' ''Vaccination_Id'' (keep_if_short 5) d2 = Inr d3"
       "assign_col id ''Dr_Name'' ''Dr_Name'' (keep_if_short 255) d3 = Inr d4"
       "assign_col id ''State'' ''State'' (keep_if_short 5) d4 = Inr d5"
       "assign_col id ''Country'' ''Country'' (keep_if_short 5) d5 = Inr d6"
       "filter_notnull id ''Customer_Name'' d6 = Inr d7"
       "filter_notnull id ''Customer_Id'' d7 = Inr d8"
       "filter_notnull id ''Open_Date'' d8 = Inr df'"
    unfolding pandas_validate_data_def and_then_Inr_iff by blast
  have "rws d6 = map pandas_length_rules (rws df)"
    using s(1-6)[THEN assign_col_Inr] by (simp add: pandas_length_rules_def Let_def comp_def)
  then show ?thesis
    using s(7-9)[THEN filter_notnull_Inr] by simp
qed


lemma pandas_length_rules_cells:
  "cell_at id ''Customer_Name'' (pandas_length_rules r) = keep_if_short 255 (cell_at id ''Customer_Name'' r)"
  "cell_at id ''Customer_Id'' (pandas_length_rules r) = keep_if_short 18 (cell_at id ''Customer_Id'' r)"
  "cell_at id ''Open_Date'' (pandas_length_rules r) = cell_at id ''Open_Date'' r"
  by (simp_all add: pandas_length_rules_def Let_def cell_at_set_cell)

lemma notnull_keep_if_short: "notnull (keep_if_short n x) \<Longrightarrow> notnull x"
  by (cases x) (simp_all add: keep_if_short_def notnull_def)

lemma pandas_validate_kept:
  assumes "pandas_validate_data df = Inr df'"
  shows "rws df' =
     map pandas_length_rules
       (filter (\<lambda>r. notnull (keep_if_short 255 (cell_at id ''Customer_Name'' r))
                   \<and> notnull (keep_if_short 18 (cell_at id ''Customer_Id'' r))
                   \<and> notnull (cell_at id ''Open_Date'' r)) (rws df))"
  unfolding pandas_validate_rows[OF assms]
  by (simp add: filter_map comp_def pandas_length_rules_cells conj_commute conj_left_commute)


lemma lower_names:
  "lower ''Customer_Name'' = ''customer_name''"
  "lower ''Customer_ID'' = ''customer_id''"
  "lower ''Vaccination_Id'' = ''vaccination_id''"
  "lower ''Dr_Name'' = ''dr_name''"
  "lower ''State'' = ''state''"
  "lower ''Country'' = ''country''"
  "lower ''Open_Date'' = ''open_date''"
  "lower ''Last_Consulted_Date'' = ''last_consulted_date''"
  "lower ''DOB'' = ''dob''"
  "lower ''Age'' = ''age''"
  "lower ''Days_Since_Last_Consulted'' = ''days_since_last_consulted''"
  "lower ''Consulted_Recently'' = ''consulted_recently''"
  "lower ''row_number'' = ''row_number''"
  by (simp_all add: lower_def to_lower_def)

lemma spark_validate_rows:
  assumes "spark_validate_data df = Inr df'"
  shows "rws df' =
     filter (\<lambda>r. notnull (cell_at lower ''Open_Date'' r))
       (filter (\<lambda>r. notnull (cell_at lower ''Customer_ID'' r))
          (filter (\<lambda>r. notnull (cell_at lower ''Customer_Name'' r))
             (map spark_length_rules (rws df))))"
proof -
  from assms obtain d1 d2 d3 d4 d5 d6 d7 d8 where
    s: "assign_col lower ''Customer_Name'' ''Customer_Name'' (when_short 255) df = Inr d1"
       "assign_col lower ''Customer_ID'' ''Customer_ID'' (when_short 18) d1 = Inr d2"
       "assign_col lower ''Vaccination_Id'' ''Vaccination_Id'' (when_short 5) d2 = Inr d3"
       "assign_col lower ''Dr_Name'' ''Dr_Name'' (when_short 255) d3 = Inr d4"
       "assign_col lower ''State'' ''State'' (when_short 5) d4 = Inr d5"
       "assign_col lower ''Country'' ''Country'' (when_short 5) d5 = Inr d6"
       "filter_notnull lower ''Customer_Name'' d6 = Inr d7"
       "filter_notnull lower ''Customer_ID'' d7 = Inr d8"
       "filter_notnull lower ''Open_Date'' d8 = Inr df'"
    unfolding spark_validate_data_def and_then_Inr_iff by blast
  have "rws d6 = map spark_length_rules (rws df)"
    using s(1-6)[THEN assign_col_Inr] by (simp add: spark_length_rules_def Let_def comp_def)
  then show ?thesis
    using s(7-9)[THEN filter_notnull_Inr] by simp
qed

lemma spark_length_rules_cells:
  "cell_at lower ''Customer_Name'' (spark_length_rules r) = when_short 255 (cell_at lower ''Customer_Name'' r)"
  "cell_at lower ''Customer_ID'' (spark_length_rules r) = when_short 18 (cell_at lower ''Customer_ID'' r)"
  "cell_at lower ''Open_Date'' (spark_length_rules r) = cell_at lower ''Open_Date'' r"
  by (simp_all add: spark_length_rules_def Let_def cell_at_set_cell lower_names)

lemma notnull_when_short: "notnull (when_short n x) \<Longrightarrow> notnull x"
  by (cases x) (simp_all add: when_short_def str_length_def sql_le_def notnull_def)

lemma spark_validate_kept:
  assumes "spark_validate_data df = Inr df'"
  shows "rws df' =
     map spark_length_rules
       (filter (\<lambda>r. notnull (when_short 255 (cell_at lower ''Customer_Name'' r))
                   \<and> notnull (when_short 18 (cell_at lower ''Customer_ID'' r))
                   \<and> notnull (cell_at lower ''Open_Date'' r)) (rws df))"
  unfolding spark_validate_rows[OF assms]
  by (simp add: filter_map comp_def spark_length_rules_cells conj_commute conj_left_commute)


lemma set_sort_desc_nulls_last [simp]: "set (sort_desc_nulls_last col rs) = set rs"
  by (auto simp: sort_desc_nulls_last_def)

lemma set_groupby_head1: "set (groupby_head1 key seen rs) \<subseteq> set rs"
  by (induction rs arbitrary: seen) auto

lemma set_first_of_each_group: "set (first_of_each_group key col rs) \<subseteq> set rs"
  by (auto simp: first_of_each_group_def dest!: in_set_takeD)

lemma global_latest_records_Inr:
  assumes "global_latest_records staging = Inr latest"
  shows "columns latest = columns staging"
    and "rws latest = groupby_head1 (cell_at id ''Customer_Id'') []
           (sort_desc_nulls_last (cell_at id ''Last_Consulted_Date'') (rws staging))"
    and "set (rws latest) \<subseteq> set (rws staging)"
  using assms set_groupby_head1[of "cell_at id ''Customer_Id''" "[]"
      "sort_desc_nulls_last (cell_at id ''Last_Consulted_Date'') (rws staging)"]
  by (auto simp: global_latest_records_def and_then_Inr_iff)

lemma pandas_country_table_rows:
  assumes "pandas_country_table now latest c = Inr t"
  shows "rws t = map (pandas_derived_row now)
                   (filter (\<lambda>r. eq_cell (cell_at id ''Country'' r) c) (rws latest))"
proof -
  from assms obtain d1 d2 where
    s: "assign_col id ''Age'' ''DOB'' (pandas_age now)
          (latest\<lparr>rws := filter (\<lambda>r. eq_cell (cell_at id ''Country'' r) c) (rws latest)\<rparr>) = Inr d1"
       "assign_col id ''Days_Since_Last_Consulted'' ''Last_Consulted_Date'' (pandas_days_since now) d1 = Inr d2"
       "assign_col id ''Consulted_Recently'' ''Days_Since_Last_Consulted'' pandas_consulted_recently d2 = Inr t"
    unfolding pandas_country_table_def and_then_Inr_iff by blast
  show ?thesis
    using s[THEN assign_col_Inr] by (simp add: pandas_derived_row_def Let_def comp_def)
qed

lemma pandas_country_loop_acc:
  "pandas_country_loop fails now latest cs w =
     (fst (pandas_country_loop fails now latest cs []),
      w @ snd (pandas_country_loop fails now latest cs []))"
proof (induction cs arbitrary: w)
  case Nil
  then show ?case by simp
next
  case (Cons c cs)
  show ?case
  proof (cases "pandas_country_table now latest c")
    case (Inl e)
    then show ?thesis by simp
  next
    case (Inr t)
    show ?thesis
      using Cons[of "w @ [(table_name c, t)]"] Cons[of "[(table_name c, t)]"] Inr
      by simp
  qed
qed

lemma pandas_country_loop_Cons:
  "pandas_country_loop fails now latest (c # cs) [] =
     (case pandas_country_table now latest c of
        Inl e \<Rightarrow> (Some e, [])
      | Inr t \<Rightarrow>
          if fails (table_name c) then (Some (WriteFailure (table_name c)), [])
          else (fst (pandas_country_loop fails now latest cs []),
                (table_name c, t) # snd (pandas_country_loop fails now latest cs [])))"
  using pandas_country_loop_acc[of fails now latest cs "[(table_name c, the_t)]" for the_t]
  by (auto split: sum.splits)

lemma pandas_country_loop_artifact:
  "a \<in> set (snd (pandas_country_loop fails now latest cs [])) \<Longrightarrow>
     \<exists>c\<in>set cs. fst a = table_name c \<and> pandas_country_table now latest c = Inr (snd a)"
proof (induction cs)
  case Nil
  then show ?case by simp
next
  case (Cons c cs)
  then show ?case
    by (auto simp: pandas_country_loop_Cons simp del: pandas_country_loop.simps
        split: sum.splits if_splits)
qed


lemma notnull_iff: "notnull x \<longleftrightarrow> x \<noteq> Null"
  by (cases x) (simp_all add: notnull_def)

lemma cell_at_drop_other:
  "nrm n \<noteq> nrm d \<Longrightarrow> cell_at nrm n (filter (\<lambda>(k, _). nrm k \<noteq> nrm d) r) = cell_at nrm n r"
  by (induction r) (auto simp: cell_at_def)

lemma cell_at_drop_row_number:
  "lower n \<noteq> ''row_number'' \<Longrightarrow>
     cell_at lower n (filter (\<lambda>(k, _). lower k \<noteq> ''row_number'') r) = cell_at lower n r"
  using cell_at_drop_other[of lower n "''row_number''" r] by (simp add: lower_names)

lemma get_latest_data_Inr:
  assumes "get_latest_data data = Inr latest"
  shows "rws latest =
           map (filter (\<lambda>(k, _). lower k \<noteq> lower ''row_number''))
             (first_of_each_group (cell_at lower ''Customer_ID'')
                (cell_at lower ''Last_Consulted_Date'') (rws data))"
  using assms by (auto simp: get_latest_data_def and_then_Inr_iff drop_column_def)

lemma add_derived_columns_Inr:
  assumes "add_derived_columns today latest = Inr derived"
  shows "rws derived = map (spark_derived_row today) (rws latest)"
proof -
  from assms obtain d1 d2 where
    s: "assign_col lower ''Age'' ''DOB'' (spark_age today) latest = Inr d1"
       "assign_col lower ''Days_Since_Last_Consulted'' ''Last_Consulted_Date''
          (spark_days_since today) d1 = Inr d2"
       "assign_col lower ''Consulted_Recently'' ''Last_Consulted_Date''
          (spark_consulted_recently today) d2 = Inr derived"
    unfolding add_derived_columns_def and_then_Inr_iff by blast
  show ?thesis
    using s[THEN assign_col_Inr] by (simp add: spark_derived_row_def Let_def comp_def)
qed

lemma spark_country_loop_acc:
  "spark_country_loop fails latest cs w =
     (fst (spark_country_loop fails latest cs []), w @ snd (spark_country_loop fails latest cs []))"
proof (induction cs arbitrary: w)
  case Nil
  then show ?case by simp
next
  case (Cons c cs)
  show ?case
    using Cons[of "w @ [x]" for x] Cons[of "[x]" for x] by simp
qed

lemma spark_country_loop_Cons:
  "spark_country_loop fails latest (c # cs) [] =
     (if fails (table_name c) then (Some (WriteFailure (table_name c)), [])
      else (fst (spark_country_loop fails latest cs []),
            (table_name c,
             latest\<lparr>rws := filter (\<lambda>r. eq_cell (cell_at lower ''Country'' r) c) (rws latest)\<rparr>)
            # snd (spark_country_loop fails latest cs [])))"
  using spark_country_loop_acc[of fails latest cs "[x]" for x] by simp

lemma spark_country_loop_artifact:
  "a \<in> set (snd (spark_country_loop fails latest cs [])) \<Longrightarrow>
     \<exists>c\<in>set cs. fst a = table_name c \<and>
        snd a = latest\<lparr>rws := filter (\<lambda>r. eq_cell (cell_at lower ''Country'' r) c) (rws latest)\<rparr>"
proof (induction cs)
  case Nil
  then show ?case by simp
next
  case (Cons c cs)
  then show ?case
    by (auto simp: spark_country_loop_Cons simp del: spark_country_loop.simps split: if_splits)
qed

lemma pandas_derived_row_cells:
  "cell_at id ''Customer_Name'' (pandas_derived_row now r) = cell_at id ''Customer_Name'' r"
  "cell_at id ''Customer_Id'' (pandas_derived_row now r) = cell_at id ''Customer_Id'' r"
  "cell_at id ''Open_Date'' (pandas_derived_row now r) = cell_at id ''Open_Date'' r"
  "cell_at id ''Country'' (pandas_derived_row now r) = cell_at id ''Country'' r"
  by (simp_all add: pandas_derived_row_def Let_def cell_at_set_cell)

lemma spark_derived_row_cells:
  "cell_at lower ''Customer_Name'' (spark_derived_row today r) = cell_at lower ''Customer_Name'' r"
  "cell_at lower ''Customer_ID'' (spark_derived_row today r) = cell_at lower ''Customer_ID'' r"
  "cell_at lower ''Open_Date'' (spark_derived_row today r) = cell_at lower ''Open_Date'' r"
  "cell_at lower ''Country'' (spark_derived_row today r) = cell_at lower ''Country'' r"
  by (simp_all add: spark_derived_row_def Let_def cell_at_set_cell lower_names)

text \<open>Every row that a run writes is a validated row with the derived columns set.\<close>

lemma pandas_main_rows:
  assumes "pandas_main parse fails now lines = (st, arts)" and "a \<in> set arts" and "r \<in> set (rws (snd a))"
  shows "\<exists>header staging v. pandas_extract_header lines = Inr header
           \<and> process_and_load_staging parse lines header = Inr staging
           \<and> v \<in> set (rws staging) \<and> r = pandas_derived_row now v
           \<and> cell_at id ''Country'' v \<noteq> Null
           \<and> fst a = table_name (cell_at id ''Country'' v)"
proof -
  from assms(1,2) obtain header staging where
    h: "pandas_extract_header lines = Inr header"
       "process_and_load_staging parse lines header = Inr staging"
       "create_and_populate_country_tables fails now staging = (st, arts)"
    by (auto simp: pandas_main_def split: sum.splits)
  from h(3) assms(2) obtain latest where
    l: "global_latest_records staging = Inr latest"
       "arts = snd (pandas_country_loop fails now latest
                 (unique (map (cell_at id ''Country'') (rws staging))) [])"
    by (auto simp: create_and_populate_country_tables_def split: sum.splits)
  from pandas_country_loop_artifact[OF assms(2)[unfolded l(2)]] obtain c where
    c: "fst a = table_name c" "pandas_country_table now latest c = Inr (snd a)"
    by blast
  from assms(3) pandas_country_table_rows[OF c(2)] obtain v where
    v: "v \<in> set (rws latest)" "eq_cell (cell_at id ''Country'' v) c" "r = pandas_derived_row now v"
    by auto
  from v(2) have "c = cell_at id ''Country'' v" "cell_at id ''Country'' v \<noteq> Null"
    by (simp_all add: eq_cell_def notnull_iff)
  with h l c v global_latest_records_Inr(3)[OF l(1)] show ?thesis
    by blast
qed

lemma spark_main_rows:
  assumes "spark_main parse fails today lines = (st, arts)" and "a \<in> set arts" and "r \<in> set (rws (snd a))"
  shows "\<exists>staging v. spark_staging parse lines = Inr staging
           \<and> v \<in> set (rws staging)
           \<and> r = spark_derived_row today (filter (\<lambda>(k, _). lower k \<noteq> lower ''row_number'') v)
           \<and> cell_at lower ''Country'' r \<noteq> Null
           \<and> fst a = table_name (cell_at lower ''Country'' r)"
proof -
  from assms(1,2) obtain staging latest derived where
    h: "spark_staging parse lines = Inr staging"
       "get_latest_data staging = Inr latest"
       "add_derived_columns today latest = Inr derived"
       "save_country_data fails derived = (st, arts)"
    by (auto simp: spark_main_def and_then_Inr_iff split: sum.splits)
  from h(4) assms(2) have
    l: "arts = snd (spark_country_loop fails derived
                 (unique (map (cell_at lower ''Country'') (rws derived))) [])"
    by (auto simp: save_country_data_def split: sum.splits)
  from spark_country_loop_artifact[OF assms(2)[unfolded l]] obtain c where
    c: "fst a = table_name c"
       "snd a = derived\<lparr>rws := filter (\<lambda>r. eq_cell (cell_at lower ''Country'' r) c) (rws derived)\<rparr>"
    by blast
  from assms(3) c(2) have r: "r \<in> set (rws derived)" "eq_cell (cell_at lower ''Country'' r) c"
    by auto
  from r(2) have "c = cell_at lower ''Country'' r" "cell_at lower ''Country'' r \<noteq> Null"
    by (simp_all add: eq_cell_def notnull_iff)
  moreover from r(1) obtain v where "v \<in> set (rws staging)"
      "r = spark_derived_row today (filter (\<lambda>(k, _). lower k \<noteq> lower ''row_number'') v)"
    using add_derived_columns_Inr[OF h(3)] get_latest_data_Inr[OF h(2)]
      set_first_of_each_group[of "cell_at lower ''Customer_ID''" "cell_at lower ''Last_Consulted_Date''" "rws staging"]
    by auto
  ultimately show ?thesis
    using h(1) c(1) r(2) by blast
qed


lemma pandas_validated_rows_mandatory:
  assumes "pandas_validate_data df = Inr df'" and "r \<in> set (rws df')"
  shows "cell_at id ''Customer_Name'' r \<noteq> Null \<and> cell_at id ''Customer_Id'' r \<noteq> Null
         \<and> cell_at id ''Open_Date'' r \<noteq> Null"
  using assms(2) unfolding pandas_validate_rows[OF assms(1)] by (auto simp: notnull_iff)

lemma spark_validated_rows_mandatory:
  assumes "spark_validate_data df = Inr df'" and "r \<in> set (rws df')"
  shows "cell_at lower ''Customer_Name'' r \<noteq> Null \<and> cell_at lower ''Customer_ID'' r \<noteq> Null
         \<and> cell_at lower ''Open_Date'' r \<noteq> Null"
  using assms(2) unfolding spark_validate_rows[OF assms(1)] by (auto simp: notnull_iff)

lemma process_and_load_staging_validated:
  "process_and_load_staging parse lines header = Inr staging \<Longrightarrow>
     \<exists>bound conv. pandas_bind_rows lines header = Inr bound \<and> pandas_convert_dates parse bound = Inr conv
        \<and> pandas_validate_data conv = Inr staging"
  by (auto simp: process_and_load_staging_def and_then_Inr_iff)

lemma spark_staging_validated:
  "spark_staging parse lines = Inr staging \<Longrightarrow>
     \<exists>header conv. spark_extract_header lines = Inr header
        \<and> spark_convert_dates parse (process_data lines header) = Inr conv
        \<and> spark_validate_data conv = Inr staging"
  by (auto simp: spark_staging_def and_then_Inr_iff)

lemma filter_rename_other:
  "nrm n \<noteq> nrm t \<Longrightarrow>
     filter (\<lambda>c. nrm c = nrm n) (map (\<lambda>c. if nrm c = nrm t then t else c) cols)
       = filter (\<lambda>c. nrm c = nrm n) cols"
  by (induction cols) auto

lemma filter_set_name_other:
  "nrm n \<noteq> nrm t \<Longrightarrow>
     filter (\<lambda>c. nrm c = nrm n) (set_name nrm t cols) = filter (\<lambda>c. nrm c = nrm n) cols"
  by (simp add: set_name_def filter_rename_other)

lemma resolve_set_name_other:
  "nrm n \<noteq> nrm t \<Longrightarrow> resolve nrm (set_name nrm t cols) n = resolve nrm cols n"
  by (simp add: resolve_def filter_set_name_other)

lemma assign_col_ok:
  "resolve nrm (columns df) s = Inr () \<Longrightarrow>
     assign_col nrm t s f df =
       Inr \<lparr>columns = set_name nrm t (columns df),
            rws = map (\<lambda>r. set_cell nrm t (f (cell_at nrm s r)) r) (rws df)\<rparr>"
  by (simp add: assign_col_def)



lemma filter_sort_desc_nulls_last:
  "filter P (sort_desc_nulls_last col rs) = sort_desc_nulls_last col (filter P rs)"
proof -
  have "filter P (rev (sort_key (\<lambda>r. day_number (col r)) (rev (filter (\<lambda>r. notnull (col r)) rs))))
      = rev (sort_key (\<lambda>r. day_number (col r)) (rev (filter (\<lambda>r. notnull (col r)) (filter P rs))))"
    by (simp add: rev_filter[symmetric] filter_sort conj_commute)
  then show ?thesis
    by (simp add: sort_desc_nulls_last_def conj_commute)
qed

lemma sorted_last_max:
  "sorted (map f ys) \<Longrightarrow> z \<in> set ys \<Longrightarrow> f z \<le> f (last ys)"
  by (induction ys) auto

lemma take1_sort_desc_nulls_last:
  assumes "G \<noteq> []"
  shows "\<exists>x. take 1 (sort_desc_nulls_last col G) = [x] \<and> x \<in> set G
           \<and> (\<forall>r'\<in>set G. notnull (col r') \<longrightarrow>
                  notnull (col x) \<and> day_number (col r') \<le> day_number (col x))"
proof (cases "filter (\<lambda>r. notnull (col r)) G = []")
  case True
  then have none: "\<forall>r'\<in>set G. \<not> notnull (col r')"
    by (simp add: filter_empty_conv)
  then have "sort_desc_nulls_last col G = G"
    by (simp add: sort_desc_nulls_last_def True)
  with assms none show ?thesis
    by (cases G) auto
next
  case False
  define S where "S = sort_key (\<lambda>r. day_number (col r)) (rev (filter (\<lambda>r. notnull (col r)) G))"
  have "length S = length (filter (\<lambda>r. notnull (col r)) G)"
    by (simp add: S_def)
  with False have ne: "S \<noteq> []"
    by auto
  have setS: "set S = {r \<in> set G. notnull (col r)}"
    by (auto simp: S_def)
  have srt: "sorted (map (\<lambda>r. day_number (col r)) S)"
    by (simp add: S_def)
  have sd: "sort_desc_nulls_last col G = rev S @ filter (\<lambda>r. \<not> notnull (col r)) G"
    by (simp add: sort_desc_nulls_last_def S_def)
  have hd: "take 1 (sort_desc_nulls_last col G) = [last S]"
    unfolding sd using ne by (cases S rule: rev_cases) simp_all
  have "last S \<in> set S"
    using ne by simp
  moreover have "\<forall>r'\<in>set S. day_number (col r') \<le> day_number (col (last S))"
    using sorted_last_max[OF srt] by blast
  ultimately show ?thesis
    using hd setS by auto
qed

lemma filter_groupby_head1:
  "filter (\<lambda>x. key x = k) (groupby_head1 key seen xs) =
     (if notnull k \<and> k \<notin> set seen then take 1 (filter (\<lambda>x. key x = k) xs) else [])"
  by (induction xs arbitrary: seen) auto

lemma distinct_unique [simp]: "distinct (unique xs)"
  by (simp add: unique_def)

lemma set_unique [simp]: "set (unique xs) = set xs"
  by (simp add: unique_def)

lemma concat_pick:
  "distinct ks \<Longrightarrow>
     concat (map (\<lambda>k'. if k' = k then p else []) ks) = (if k \<in> set ks then p else [])"
  by (induction ks) auto

lemma piece_same:
  "filter (\<lambda>x. key x = k) (take 1 (sort_desc_nulls_last col (filter (\<lambda>r. key r = k) rs)))
     = take 1 (sort_desc_nulls_last col (filter (\<lambda>r. key r = k) rs))"
proof -
  have "set (take 1 (sort_desc_nulls_last col (filter (\<lambda>r. key r = k) rs)))
          \<subseteq> set (sort_desc_nulls_last col (filter (\<lambda>r. key r = k) rs))"
    by (rule set_take_subset)
  then have "\<forall>x\<in>set (take 1 (sort_desc_nulls_last col (filter (\<lambda>r. key r = k) rs))). key x = k"
    by auto
  then show ?thesis
    by (simp only: filter_id_conv)
qed

lemma piece_other:
  assumes "k' \<noteq> k"
  shows "filter (\<lambda>x. key x = k) (take 1 (sort_desc_nulls_last col (filter (\<lambda>r. key r = k') rs))) = []"
proof -
  have "set (take 1 (sort_desc_nulls_last col (filter (\<lambda>r. key r = k') rs)))
          \<subseteq> set (sort_desc_nulls_last col (filter (\<lambda>r. key r = k') rs))"
    by (rule set_take_subset)
  then have "\<forall>x\<in>set (take 1 (sort_desc_nulls_last col (filter (\<lambda>r. key r = k') rs))). key x \<noteq> k"
    using assms by auto
  then show ?thesis
    by (simp only: filter_empty_conv)
qed

lemma piece:
  "filter (\<lambda>x. key x = k) (take 1 (sort_desc_nulls_last col (filter (\<lambda>r. key r = k') rs)))
     = (if k' = k then take 1 (sort_desc_nulls_last col (filter (\<lambda>r. key r = k) rs)) else [])"
proof (cases "k' = k")
  case True
  show ?thesis
    unfolding True by (simp only: piece_same simp_thms if_True)
next
  case False
  with piece_other[OF False, of key col rs] show ?thesis
    by (simp only: if_False)
qed

lemma unfold_groups:
  "filter P (first_of_each_group key col rs) =
     concat (map (\<lambda>k'. filter P (take 1 (sort_desc_nulls_last col (filter (\<lambda>r. key r = k') rs))))
                 (unique (map key rs)))"
  by (simp only: first_of_each_group_def filter_concat map_map comp_def)

lemma filter_first_of_each_group:
  "filter (\<lambda>x. key x = k) (first_of_each_group key col rs) =
     take 1 (sort_desc_nulls_last col (filter (\<lambda>x. key x = k) rs))"
proof -
  have "filter (\<lambda>x. key x = k) (first_of_each_group key col rs) =
          concat (map (\<lambda>k'. if k' = k
                        then take 1 (sort_desc_nulls_last col (filter (\<lambda>x. key x = k) rs)) else [])
                      (unique (map key rs)))"
    by (simp only: unfold_groups piece)
  also have "\<dots> = (if k \<in> set (unique (map key rs))
                   then take 1 (sort_desc_nulls_last col (filter (\<lambda>x. key x = k) rs)) else [])"
    by (rule concat_pick) (rule distinct_unique)
  also have "\<dots> = take 1 (sort_desc_nulls_last col (filter (\<lambda>x. key x = k) rs))"
  proof (cases "k \<in> set (unique (map key rs))")
    case True
    then show ?thesis by (simp only: if_True)
  next
    case False
    then have "\<forall>x\<in>set rs. key x \<noteq> k"
      by (auto simp only: set_unique set_map)
    then have "filter (\<lambda>x. key x = k) rs = []"
      by (simp only: filter_empty_conv)
    then show ?thesis
      using False by (simp add: sort_desc_nulls_last_def)
  qed
  finally show ?thesis .
qed

text \<open>The latest record of a group, for both ways of taking it.\<close>

lemma latest_of_group:
  assumes "r \<in> set rs"
  shows "\<exists>x. take 1 (sort_desc_nulls_last col (filter (\<lambda>y. key y = key r) rs)) = [x]
           \<and> x \<in> set rs \<and> key x = key r
           \<and> (\<forall>r'\<in>set rs. key r' = key r \<longrightarrow> notnull (col r') \<longrightarrow>
                  notnull (col x) \<and> day_number (col r') \<le> day_number (col x))"
proof -
  have "filter (\<lambda>y. key y = key r) rs \<noteq> []"
    using assms by (auto simp: filter_empty_conv)
  from take1_sort_desc_nulls_last[OF this, of col] show ?thesis
    by auto
qed

lemma pandas_to_datetime_range:
  "pandas_to_datetime parse fmt x = Null \<or> (\<exists>d. pandas_to_datetime parse fmt x = Day d)"
  by (simp add: pandas_to_datetime_def split: cell.split option.split)

lemma spark_to_date_range:
  "spark_to_date parse fmt x = Null \<or> (\<exists>d. spark_to_date parse fmt x = Day d)"
  by (simp add: spark_to_date_def split: cell.split option.split)

lemma pandas_convert_dates_Inr:
  assumes "pandas_convert_dates parse df = Inr df'" and "r' \<in> set (rws df')"
  shows "\<exists>r\<in>set (rws df).
           cell_at id ''Last_Consulted_Date'' r'
             = pandas_to_datetime parse YYYYMMDD (cell_at id ''Last_Consulted_Date'' r)"
proof -
  from assms(1) obtain d1 d2 where
    s: "assign_col id ''Open_Date'' ''Open_Date'' (pandas_to_datetime parse YYYYMMDD) df = Inr d1"
       "assign_col id ''Last_Consulted_Date'' ''Last_Consulted_Date''
          (pandas_to_datetime parse YYYYMMDD) d1 = Inr d2"
       "assign_col id ''DOB'' ''DOB'' (pandas_to_datetime parse DDMMYYYY) d2 = Inr df'"
    unfolding pandas_convert_dates_def and_then_Inr_iff by blast
  show ?thesis
    using s[THEN assign_col_Inr] assms(2) by (auto simp: cell_at_set_cell)
qed

lemma spark_convert_dates_Inr:
  assumes "spark_convert_dates parse df = Inr df'" and "r' \<in> set (rws df')"
  shows "\<exists>r\<in>set (rws df).
           cell_at lower ''Last_Consulted_Date'' r'
             = spark_to_date parse YYYYMMDD (cell_at lower ''Last_Consulted_Date'' r)"
proof -
  from assms(1) obtain d1 d2 where
    s: "assign_col lower ''Open_Date'' ''Open_Date'' (spark_to_date parse YYYYMMDD) df = Inr d1"
       "assign_col lower ''Last_Consulted_Date'' ''Last_Consulted_Date''
          (spark_to_date parse YYYYMMDD) d1 = Inr d2"
       "assign_col lower ''DOB'' ''DOB'' (spark_to_date parse DDMMYYYY) d2 = Inr df'"
    unfolding spark_convert_dates_def and_then_Inr_iff by blast
  show ?thesis
    using s[THEN assign_col_Inr] assms(2) by (auto simp: cell_at_set_cell lower_names)
qed

lemma pandas_length_rules_date:
  "cell_at id ''Last_Consulted_Date'' (pandas_length_rules r) = cell_at id ''Last_Consulted_Date'' r"
  by (simp add: pandas_length_rules_def Let_def cell_at_set_cell)

lemma spark_length_rules_date:
  "cell_at lower ''Last_Consulted_Date'' (spark_length_rules r)
     = cell_at lower ''Last_Consulted_Date'' r"
  by (simp add: spark_length_rules_def Let_def cell_at_set_cell lower_names)

lemma pandas_staging_dates:
  assumes "process_and_load_staging parse lines header = Inr staging" and "r \<in> set (rws staging)"
  shows "cell_at id ''Last_Consulted_Date'' r = Null
         \<or> (\<exists>d. cell_at id ''Last_Consulted_Date'' r = Day d)"
proof -
  from process_and_load_staging_validated[OF assms(1)] obtain bound conv where
    c: "pandas_convert_dates parse bound = Inr conv" "pandas_validate_data conv = Inr staging"
    by blast
  from assms(2) pandas_validate_kept[OF c(2)] obtain v where
    v: "v \<in> set (rws conv)" "r = pandas_length_rules v"
    by auto
  from pandas_convert_dates_Inr[OF c(1) v(1)] pandas_to_datetime_range show ?thesis
    unfolding v(2) pandas_length_rules_date by metis
qed

lemma spark_staging_dates:
  assumes "spark_staging parse lines = Inr staging" and "r \<in> set (rws staging)"
  shows "cell_at lower ''Last_Consulted_Date'' r = Null
         \<or> (\<exists>d. cell_at lower ''Last_Consulted_Date'' r = Day d)"
proof -
  from spark_staging_validated[OF assms(1)] obtain header conv where
    c: "spark_convert_dates parse (process_data lines header) = Inr conv"
       "spark_validate_data conv = Inr staging"
    by blast
  from assms(2) spark_validate_kept[OF c(2)] obtain v where
    v: "v \<in> set (rws conv)" "r = spark_length_rules v"
    by auto
  from spark_convert_dates_Inr[OF c(1) v(1)] spark_to_date_range show ?thesis
    unfolding v(2) spark_length_rules_date by metis
qed

text \<open>
  The selection of one group, stated on dates: the row taken has a date whenever a row of
  the group has one, and no row of the group has a later date.
\<close>

lemma latest_of_group_dates:
  assumes "r \<in> set rs"
    and "\<forall>y\<in>set rs. col y = Null \<or> (\<exists>d. col y = Day d)"
  shows "\<exists>x. take 1 (sort_desc_nulls_last col (filter (\<lambda>y. key y = key r) rs)) = [x]
           \<and> x \<in> set rs \<and> key x = key r
           \<and> (\<forall>r'\<in>set rs. key r' = key r \<longrightarrow>
                 (\<forall>d'. col r' = Day d' \<longrightarrow> (\<exists>d. col x = Day d \<and> ordinal d' \<le> ordinal d)))"
proof -
  from latest_of_group[OF assms(1), of col key] obtain x where
    x: "take 1 (sort_desc_nulls_last col (filter (\<lambda>y. key y = key r) rs)) = [x]"
       "x \<in> set rs" "key x = key r"
       "\<forall>r'\<in>set rs. key r' = key r \<longrightarrow> notnull (col r') \<longrightarrow>
           notnull (col x) \<and> day_number (col r') \<le> day_number (col x)"
    by blast
  have "\<exists>d. col x = Day d \<and> ordinal d' \<le> ordinal d"
    if "r' \<in> set rs" "key r' = key r" "col r' = Day d'" for r' d'
  proof -
    from x(4) that have "notnull (col x)" "day_number (col r') \<le> day_number (col x)"
      by (auto simp: notnull_def)
    moreover from assms(2) x(2) have "col x = Null \<or> (\<exists>d. col x = Day d)"
      by blast
    ultimately show ?thesis
      using that(3) by (auto simp: notnull_def day_number_def)
  qed
  with x(1,2,3) show ?thesis
    by blast
qed

lemma split_on_not_Nil [simp]: "split_on sep s \<noteq> []"
  by (induction s) (auto split: list.split)









lemma csv_cell_D: "csv_cell t = Str ''D'' \<longleftrightarrow> t = ''D''"
  by (auto simp: csv_cell_def na_values_def)

lemma tagged_D_iff: "tagged_D r \<longleftrightarrow> 2 \<le> length r \<and> r ! 1 = Str ''D''"
  by (cases r; cases "tl r") (auto simp: tagged_D_def)

lemma tagged_D_record:
  "tagged_D (map csv_cell toks @ replicate n Null) \<longleftrightarrow> 2 \<le> length toks \<and> toks ! 1 = ''D''"
proof (cases toks)
  case Nil
  then show ?thesis
    by (cases n; cases "n - 1") (auto simp: tagged_D_def)
next
  case (Cons a rest)
  then show ?thesis
    by (cases rest; cases n) (auto simp: tagged_D_def csv_cell_D)
qed

lemma read_csv_Inr:
  assumes "read_csv lines = Inr data"
  shows "data = map (\<lambda>r. map csv_cell r @ replicate
                      (length (hd (map (split_on CHR ''|'') (filter (\<lambda>l. \<not> blank_line l) lines)))
                       - length r) Null)
                (map (split_on CHR ''|'') (filter (\<lambda>l. \<not> blank_line l) lines))"
  using assms by (auto simp: read_csv_def split: list.splits if_splits)


lemma pandas_bind_rows_count:
  assumes "pandas_bind_rows lines header = Inr df"
  shows "length (rws df) =
     length (filter (\<lambda>l. \<not> blank_line l \<and> 2 \<le> length (split_on CHR ''|'' l)
                          \<and> split_on CHR ''|'' l ! 1 = ''D'') lines)"
proof -
  from assms obtain data body where
    d: "read_csv lines = Inr data" "data_rows data = Inr body"
       "set_columns header (length (hd data) - 2) body = Inr df"
    by (auto simp: pandas_bind_rows_def and_then_Inr_iff)
  from d(2) have body: "body = map (drop 2) (filter tagged_D data)"
    by (auto simp: data_rows_def split: list.splits if_splits)
  from d(3) have "length (rws df) = length body"
    by (auto simp: set_columns_def split: if_splits)
  then show ?thesis
    unfolding body read_csv_Inr[OF d(1)]
    by (simp add: filter_map comp_def tagged_D_record conj_commute conj_left_commute)
qed



text \<open>A write that fails ends the loop: what a run writes is a prefix of what it would write.\<close>

lemma pandas_country_loop_prefix:
  "pandas_country_loop (\<lambda>_. False) now latest cs [] = (None, arts) \<Longrightarrow>
     pandas_country_loop fails now latest cs [] =
       (case find (\<lambda>a. fails (fst a)) arts of
          None \<Rightarrow> None
        | Some a \<Rightarrow> Some (WriteFailure (fst a)),
        takeWhile (\<lambda>a. \<not> fails (fst a)) arts)"
proof (induction cs arbitrary: arts)
  case Nil
  then show ?case by simp
next
  case (Cons c cs)
  show ?case
  proof (cases "pandas_country_table now latest c")
    case (Inl e)
    with Cons.prems show ?thesis
      by (simp add: pandas_country_loop_Cons del: pandas_country_loop.simps)
  next
    case (Inr t)
    with Cons.prems obtain arts' where
      a: "arts = (table_name c, t) # arts'"
         "pandas_country_loop (\<lambda>_. False) now latest cs [] = (None, arts')"
      by (cases "pandas_country_loop (\<lambda>_. False) now latest cs []")
        (auto simp: pandas_country_loop_Cons simp del: pandas_country_loop.simps)
    from Cons.IH[OF a(2)] Inr show ?thesis
      unfolding a(1) by (simp add: pandas_country_loop_Cons del: pandas_country_loop.simps)
  qed
qed

lemma spark_country_loop_prefix:
  "spark_country_loop (\<lambda>_. False) latest cs [] = (None, arts) \<Longrightarrow>
     spark_country_loop fails latest cs [] =
       (case find (\<lambda>a. fails (fst a)) arts of
          None \<Rightarrow> None
        | Some a \<Rightarrow> Some (WriteFailure (fst a)),
        takeWhile (\<lambda>a. \<not> fails (fst a)) arts)"
proof (induction cs arbitrary: arts)
  case Nil
  then show ?case by simp
next
  case (Cons c cs)
  from Cons.prems obtain arts' where
    a: "arts = (table_name c,
                latest\<lparr>rws := filter (\<lambda>r. eq_cell (cell_at lower ''Country'' r) c) (rws latest)\<rparr>)
               # arts'"
       "spark_country_loop (\<lambda>_. False) latest cs [] = (None, arts')"
    by (cases "spark_country_loop (\<lambda>_. False) latest cs []")
      (auto simp: spark_country_loop_Cons simp del: spark_country_loop.simps)
  from Cons.IH[OF a(2)] show ?case
    unfolding a(1) by (simp add: spark_country_loop_Cons del: spark_country_loop.simps)
qed

lemma resolve_id_present: "resolve id cols t = Inr () \<Longrightarrow> t \<in> set cols"
  by (auto simp: resolve_def split: list.splits dest: filter_eq_ConsD)

lemma set_name_id_present: "t \<in> set cols \<Longrightarrow> set_name id t cols = cols"
  by (auto simp: set_name_def list_ex_iff intro: map_idI)

lemma assign_col_same:
  assumes "assign_col id t t f df = Inr df'"
  shows "columns df' = columns df" and "resolve id (columns df) t = Inr ()"
proof -
  from assms show r: "resolve id (columns df) t = Inr ()"
    by (auto simp: assign_col_def and_then_Inr_iff)
  from assign_col_Inr[OF assms] set_name_id_present[OF resolve_id_present[OF r]]
  show "columns df' = columns df"
    by simp
qed

lemma filter_notnull_same:
  assumes "filter_notnull nrm n df = Inr df'"
  shows "columns df' = columns df" and "resolve nrm (columns df) n = Inr ()"
  using assms by (auto simp: filter_notnull_def and_then_Inr_iff)

lemma pandas_convert_dates_columns:
  assumes "pandas_convert_dates parse df = Inr df'"
  shows "columns df' = columns df"
    and "resolve id (columns df) ''Last_Consulted_Date'' = Inr ()"
    and "resolve id (columns df) ''DOB'' = Inr ()"
proof -
  from assms obtain d1 d2 where
    s: "assign_col id ''Open_Date'' ''Open_Date'' (pandas_to_datetime parse YYYYMMDD) df = Inr d1"
       "assign_col id ''Last_Consulted_Date'' ''Last_Consulted_Date''
          (pandas_to_datetime parse YYYYMMDD) d1 = Inr d2"
       "assign_col id ''DOB'' ''DOB'' (pandas_to_datetime parse DDMMYYYY) d2 = Inr df'"
    unfolding pandas_convert_dates_def and_then_Inr_iff by blast
  note c = s[THEN assign_col_same(1)] and r = s[THEN assign_col_same(2)]
  show "columns df' = columns df"
    using c by simp
  show "resolve id (columns df) ''Last_Consulted_Date'' = Inr ()"
    using c r by simp
  show "resolve id (columns df) ''DOB'' = Inr ()"
    using c r by simp
qed

lemma pandas_validate_data_columns:
  assumes "pandas_validate_data df = Inr df'"
  shows "columns df' = columns df"
    and "resolve id (columns df) ''Customer_Id'' = Inr ()"
    and "resolve id (columns df) ''Country'' = Inr ()"
proof -
  from assms obtain d1 d2 d3 d4 d5 d6 d7 d8 where
    s: "assign_col id ''Customer_Name'' ''Customer_Name'' (keep_if_short 255) df = Inr d1"
       "assign_col id ''Customer_Id'' ''Customer_Id'' (keep_if_short 18) d1 = Inr d2"
       "assign_col id ''Vaccination_Id'' ''Vaccination_Id'' (keep_if_short 5) d2 = Inr d3"
       "assign_col id ''Dr_Name'' ''Dr_Name'' (keep_if_short 255) d3 = Inr d4"
       "assign_col id ''State'' ''State'' (keep_if_short 5) d4 = Inr d5"
       "assign_col id ''Country'' ''Country'' (keep_if_short 5) d5 = Inr d6"
    and f: "filter_notnull id ''Customer_Name'' d6 = Inr d7"
       "filter_notnull id ''Customer_Id'' d7 = Inr d8"
       "filter_notnull id ''Open_Date'' d8 = Inr df'"
    unfolding pandas_validate_data_def and_then_Inr_iff by blast
  note c = s[THEN assign_col_same(1)] f[THEN filter_notnull_same(1)]
    and r = s[THEN assign_col_same(2)]
  show "columns df' = columns df"
    using c by simp
  show "resolve id (columns df) ''Customer_Id'' = Inr ()"
    using c r by simp
  show "resolve id (columns df) ''Country'' = Inr ()"
    using c r by simp
qed

lemma pandas_bind_rows_columns:
  "pandas_bind_rows lines header = Inr df \<Longrightarrow> columns df = header"
  by (auto simp: pandas_bind_rows_def and_then_Inr_iff set_columns_def split: if_splits)

lemma pandas_staging_columns:
  assumes "process_and_load_staging parse lines header = Inr staging"
  shows "columns staging = header"
    and "resolve id (columns staging) ''Last_Consulted_Date'' = Inr ()"
    and "resolve id (columns staging) ''DOB'' = Inr ()"
    and "resolve id (columns staging) ''Customer_Id'' = Inr ()"
    and "resolve id (columns staging) ''Country'' = Inr ()"
proof -
  from process_and_load_staging_validated[OF assms] obtain bound conv where
    b: "pandas_bind_rows lines header = Inr bound"
       "pandas_convert_dates parse bound = Inr conv"
       "pandas_validate_data conv = Inr staging"
    by blast
  note c = pandas_convert_dates_columns[OF b(2)] and v = pandas_validate_data_columns[OF b(3)]
  show "columns staging = header"
    using pandas_bind_rows_columns[OF b(1)] c(1) v(1) by simp
  show "resolve id (columns staging) ''Last_Consulted_Date'' = Inr ()"
    using c v(1) by simp
  show "resolve id (columns staging) ''DOB'' = Inr ()"
    using c v(1) by simp
  show "resolve id (columns staging) ''Customer_Id'' = Inr ()"
    using v by simp
  show "resolve id (columns staging) ''Country'' = Inr ()"
    using v by simp
qed

lemma filter_eq_distinct:
  "distinct xs \<Longrightarrow> x \<in> set xs \<Longrightarrow> filter (\<lambda>c. c = x) xs = [x]"
  by (induction xs) (auto simp: filter_empty_conv)

lemma resolve_set_name_self:
  "distinct cols \<Longrightarrow> resolve id (set_name id t cols) t = Inr ()"
proof (cases "t \<in> set cols")
  case True
  assume "distinct cols"
  with True show ?thesis
    by (simp add: resolve_def set_name_id_present filter_eq_distinct)
next
  case False
  then have "filter (\<lambda>c. c = t) cols = []"
    by (auto simp: filter_empty_conv)
  with False show ?thesis
    by (simp add: resolve_def set_name_def list_ex_iff)
qed

lemma distinct_set_name_id: "distinct cols \<Longrightarrow> distinct (set_name id t cols)"
  by (cases "t \<in> set cols") (auto simp: set_name_id_present set_name_def list_ex_iff)

lemma pandas_country_table_ok:
  assumes "resolve id (columns latest) ''Country'' = Inr ()"
    and "resolve id (columns latest) ''DOB'' = Inr ()"
    and "resolve id (columns latest) ''Last_Consulted_Date'' = Inr ()"
    and "distinct (columns latest)"
  shows "\<exists>t. pandas_country_table now latest c = Inr t
           \<and> rws t = map (pandas_derived_row now)
                        (filter (\<lambda>r. eq_cell (cell_at id ''Country'' r) c) (rws latest))"
proof -
  have "\<exists>t. pandas_country_table now latest c = Inr t"
    using assms
    by (simp add: pandas_country_table_def assign_col_ok resolve_set_name_other
        resolve_set_name_self distinct_set_name_id)
  then show ?thesis
    using pandas_country_table_rows by blast
qed

lemma pandas_country_loop_never:
  assumes "\<forall>c\<in>set cs. \<exists>t. pandas_country_table now latest c = Inr t"
  shows "\<exists>arts. pandas_country_loop (\<lambda>_. False) now latest cs [] = (None, arts)
           \<and> length arts = length cs
           \<and> (\<forall>i<length cs. fst (arts ! i) = table_name (cs ! i)
                 \<and> pandas_country_table now latest (cs ! i) = Inr (snd (arts ! i)))"
  using assms
proof (induction cs)
  case Nil
  then show ?case by simp
next
  case (Cons c cs)
  then obtain t arts where
    t: "pandas_country_table now latest c = Inr t"
    and a: "pandas_country_loop (\<lambda>_. False) now latest cs [] = (None, arts)"
       "length arts = length cs"
       "\<forall>i<length cs. fst (arts ! i) = table_name (cs ! i)
           \<and> pandas_country_table now latest (cs ! i) = Inr (snd (arts ! i))"
    by auto
  have "pandas_country_loop (\<lambda>_. False) now latest (c # cs) [] = (None, (table_name c, t) # arts)"
    using t a(1) by (simp add: pandas_country_loop_Cons del: pandas_country_loop.simps)
  moreover have "\<forall>i<length (c # cs). fst (((table_name c, t) # arts) ! i) = table_name ((c # cs) ! i)
      \<and> pandas_country_table now latest ((c # cs) ! i) = Inr (snd (((table_name c, t) # arts) ! i))"
    using t a(3) by (auto simp: nth_Cons split: nat.split)
  ultimately show ?case
    using a(2) by auto
qed



subsection \<open>The sample file, stage by stage\<close>

lemma lower_Customer_Id: "lower ''Customer_Id'' = ''customer_id''"
  by (simp add: lower_def to_lower_def)

lemmas lower_steps = lower_names lower_Customer_Id

lemmas sample_rows =
  alex_usa_raw_def alex_ind_raw_def john_raw_def bob_raw_def
  alex_usa_dated_def alex_ind_dated_def john_dated_def bob_dated_def bob_valid_def

lemmas sample_names = sample_header_def spark_names_def derived_names_def

lemmas frame_steps =
  assign_col_def resolve_def set_name_def set_cell_def cell_at_def filter_notnull_def frame_of_def

lemmas date_steps =
  sample_parse_def days_in_month_def is_leap_def
  ordinal_def days_before_year_def days_before_month_def upt_rec

lemma sample_pandas_header: "pandas_extract_header sample_file = Inr sample_header"
  by (simp add: sample_file_def sample_header_def startswith_def strip_def whitespace_def)

lemma sample_pandas_bound: "pandas_bind_rows sample_file sample_header = Inr sample_bound"
  by (simp add: sample_file_def sample_bound_def sample_names sample_rows frame_of_def
      pandas_bind_rows_def read_csv_def blank_line_def csv_cell_def na_values_def
      data_rows_def tagged_D_def set_columns_def)

lemma sample_pandas_dated: "pandas_convert_dates sample_parse sample_bound = Inr sample_dated"
  by (simp add: sample_bound_def sample_dated_def sample_names sample_rows
      pandas_convert_dates_def pandas_to_datetime_def frame_steps date_steps)

lemma sample_pandas_validated: "pandas_validate_data sample_dated = Inr pandas_sample_staging"
  by (simp add: sample_dated_def pandas_sample_staging_def sample_names sample_rows
      pandas_validate_data_def keep_if_short_def notnull_def frame_steps)

lemma sample_pandas_staging:
  "process_and_load_staging sample_parse sample_file sample_header = Inr pandas_sample_staging"
  by (simp add: process_and_load_staging_def sample_pandas_bound sample_pandas_dated
      sample_pandas_validated)

lemma sample_pandas_latest: "global_latest_records pandas_sample_staging = Inr pandas_sample_latest"
  by (simp add: pandas_sample_staging_def pandas_sample_latest_def sample_names sample_rows
      global_latest_records_def sort_desc_nulls_last_def day_number_def notnull_def
      frame_steps date_steps)


lemma sample_pandas_table_USA:
  "pandas_country_table sample_today pandas_sample_latest (Str ''USA'')
     = Inr (frame_of (sample_header @ derived_names) [])"
  by (simp add: pandas_sample_latest_def sample_names sample_rows
      sample_today_def eq_cell_def notnull_def
      pandas_country_table_def pandas_age_def pandas_days_since_def pandas_consulted_recently_def
      gt_num_def frame_steps date_steps)

lemma sample_pandas_table_IND:
  "pandas_country_table sample_today pandas_sample_latest (Str ''IND'')
     = Inr (frame_of (sample_header @ derived_names) [alex_ind_dated @ [Num 37, Num 30, Str ''No'']])"
  by (simp add: pandas_sample_latest_def sample_names sample_rows
      sample_today_def eq_cell_def notnull_def
      pandas_country_table_def pandas_age_def pandas_days_since_def pandas_consulted_recently_def
      gt_num_def frame_steps date_steps)

lemma sample_pandas_table_None:
  "pandas_country_table sample_today pandas_sample_latest Null
     = Inr (frame_of (sample_header @ derived_names) [])"
  by (simp add: pandas_sample_latest_def sample_names sample_rows
      sample_today_def eq_cell_def notnull_def
      pandas_country_table_def pandas_age_def pandas_days_since_def pandas_consulted_recently_def
      gt_num_def frame_steps date_steps)

lemma sample_pandas_tables:
  "pandas_country_loop never sample_today pandas_sample_latest [Str ''USA'', Str ''IND'', Null] []
     = (None, pandas_sample_output)"
  by (simp add: sample_pandas_table_USA sample_pandas_table_IND sample_pandas_table_None never_def table_name_def pandas_sample_output_def)


lemma sample_pandas_countries:
  "unique (map (cell_at id ''Country'') (rws pandas_sample_staging)) = [Str ''USA'', Str ''IND'', Null]"
  by (simp add: pandas_sample_staging_def sample_names sample_rows unique_def frame_steps)

lemma sample_pandas_country_column:
  "resolve id (columns pandas_sample_staging) ''Country'' = Inr ()"
  by (simp add: pandas_sample_staging_def sample_names frame_steps)

lemma sample_pandas_written:
  "create_and_populate_country_tables never sample_today pandas_sample_staging
     = (None, pandas_sample_output)"
  by (simp add: create_and_populate_country_tables_def sample_pandas_latest
      sample_pandas_country_column sample_pandas_countries sample_pandas_tables
      del: pandas_country_loop.simps)

lemma sample_pandas_main: "pandas_main sample_parse never sample_today sample_file = (None, pandas_sample_output)"
  by (simp add: pandas_main_def sample_pandas_header sample_pandas_staging sample_pandas_written)

lemma sample_spark_header: "spark_extract_header sample_file = Inr sample_header"
  by (simp add: sample_file_def sample_header_def startswith_def spark_extract_header_def)

lemma sample_spark_bound: "process_data sample_file sample_header = sample_bound"
  by (simp add: sample_file_def sample_bound_def sample_names sample_rows frame_of_def
      process_data_def select_fields_def get_item_def startswith_def upt_rec)



lemma sample_spark_dated: "spark_convert_dates sample_parse sample_bound = Inr sample_dated"
  by (simp add: sample_bound_def sample_dated_def sample_names sample_rows
      spark_convert_dates_def spark_to_date_def frame_steps date_steps lower_steps)

lemma sample_spark_validated: "spark_validate_data sample_dated = Inr spark_sample_staging"
  by (simp add: sample_dated_def spark_sample_staging_def sample_names sample_rows
      spark_validate_data_def when_short_def str_length_def sql_le_def notnull_def
      frame_steps lower_steps)

lemma sample_spark_staging: "spark_staging sample_parse sample_file = Inr spark_sample_staging"
  by (simp add: spark_staging_def sample_spark_header sample_spark_bound sample_spark_dated
      sample_spark_validated)


lemma sample_spark_latest: "get_latest_data spark_sample_staging = Inr spark_sample_latest"
  by (simp add: spark_sample_staging_def spark_sample_latest_def sample_names sample_rows
      get_latest_data_def first_of_each_group_def drop_column_def unique_def
      sort_desc_nulls_last_def day_number_def notnull_def frame_steps date_steps lower_steps)

lemma sample_spark_derived:
  "add_derived_columns sample_today spark_sample_latest = Inr spark_sample_derived"
  by (simp add: spark_sample_latest_def spark_sample_derived_def sample_names sample_rows
      sample_today_def add_derived_columns_def spark_age_def spark_days_since_def
      spark_consulted_recently_def datediff_def year_of_def num_or_null_def sql_le_def sql_gt_def
      frame_steps date_steps lower_steps)

lemma sample_spark_written:
  "save_country_data never spark_sample_derived = (None, spark_sample_output)"
  by (simp add: spark_sample_derived_def spark_sample_output_def sample_names sample_rows
      save_country_data_def never_def table_name_def eq_cell_def notnull_def unique_def
      frame_steps lower_steps)

lemma sample_spark_main: "spark_main sample_parse never sample_today sample_file = (None, spark_sample_output)"
  by (simp add: spark_main_def sample_spark_staging sample_spark_latest sample_spark_derived
      sample_spark_written)

subsection \<open>The recency flag\<close>

lemma pandas_consulted_recently_cases:
  "pandas_consulted_recently (pandas_days_since now x) =
     (case x of
        Day d \<Rightarrow> if ordinal now - ordinal d > 30 then Str ''Yes'' else Str ''No''
      | _ \<Rightarrow> Str ''Unknown'')"
  by (simp add: pandas_consulted_recently_def pandas_days_since_def gt_num_def notnull_def
      split: cell.split)

lemma spark_consulted_recently_cases:
  "spark_consulted_recently today x =
     (case x of
        Day d \<Rightarrow> if ordinal today - ordinal d \<le> 30 then Str ''Yes'' else Str ''No''
      | _ \<Rightarrow> Str ''Unknown'')"
  by (simp add: spark_consulted_recently_def datediff_def sql_le_def sql_gt_def
      split: cell.split)

lemma ordinal_2024_01_31: "ordinal (YMD 2024 1 31) = 738916"
  by (simp add: ordinal_def days_before_year_def days_before_month_def)

lemma ordinal_2023_12_31: "ordinal (YMD 2023 12 31) = 738885"
  by (simp add: ordinal_def days_before_year_def days_before_month_def days_in_month_def
      is_leap_def upt_rec)

text \<open>
  C1. The claim: \<open>Consulted_Recently\<close> is \<open>Yes\<close> when \<open>Days_Since_Last_Consulted\<close>
  is above 30, \<open>No\<close> when it is at most 30, \<open>Unknown\<close> when the date is null. The
  pandas program does that (\<open>pandas_consulted_recently_cases\<close>). The PySpark program has the
  two labels the other way round: on a record last consulted 31 days ago (2023-12-31, seen
  on 2024-01-31) it says \<open>No\<close> where pandas says \<open>Yes\<close>, and on one consulted 30 days ago
  it says \<open>Yes\<close> where pandas says \<open>No\<close>.
\<close>

theorem C1_spark_recency_flag_inverted:
  "spark_days_since (YMD 2024 1 31) (Day (YMD 2023 12 31)) = Num 31
   \<and> spark_consulted_recently (YMD 2024 1 31) (Day (YMD 2023 12 31)) = Str ''No''
   \<and> pandas_consulted_recently (pandas_days_since (YMD 2024 1 31) (Day (YMD 2023 12 31))) = Str ''Yes''
   \<and> spark_consulted_recently (YMD 2024 1 31) (Day (YMD 2024 1 1)) = Str ''Yes''
   \<and> pandas_consulted_recently (pandas_days_since (YMD 2024 1 31) (Day (YMD 2024 1 1))) = Str ''No''"
  by (simp add: spark_consulted_recently_cases pandas_consulted_recently_cases
      spark_days_since_def datediff_def num_or_null_def
      ordinal_def days_before_year_def days_before_month_def days_in_month_def is_leap_def upt_rec)

subsection \<open>The two programs side by side\<close>

text \<open>
  C2. The claim: on every file the two programs write the same artifacts with the same
  rows. On the sample file they do not. Alex's latest record was consulted 30 days before
  the run: the pandas program writes \<open>No\<close> in \<^verbatim>\<open>Consulted_Recently\<close>, the PySpark
  program \<open>Yes\<close> (the labels of C1). The pandas program also writes an empty
  \<^verbatim>\<open>Table_USA\<close>, since it takes the countries from the validated rows, where PySpark
  takes them from the latest records and writes no such artifact; and PySpark calls the
  column \<^verbatim>\<open>Customer_ID\<close> that pandas calls \<^verbatim>\<open>Customer_Id\<close>.
\<close>

theorem C2_programs_differ_on_sample:
  "pandas_main sample_parse never sample_today sample_file = (None, pandas_sample_output)
   \<and> spark_main sample_parse never sample_today sample_file = (None, spark_sample_output)
   \<and> pandas_sample_output ! 1
       = (''Table_IND'',
          frame_of (sample_header @ derived_names) [alex_ind_dated @ [Num 37, Num 30, Str ''No'']])
   \<and> spark_sample_output ! 0
       = (''Table_IND'',
          frame_of (spark_names @ derived_names) [alex_ind_dated @ [Num 37, Num 30, Str ''Yes'']])
   \<and> map (cell_at id ''Consulted_Recently'') (rws (snd (pandas_sample_output ! 1))) = [Str ''No'']
   \<and> map (cell_at lower ''Consulted_Recently'') (rws (snd (spark_sample_output ! 0))) = [Str ''Yes'']
   \<and> map fst pandas_sample_output = [''Table_USA'', ''Table_IND'', ''Table_None'']
   \<and> map fst spark_sample_output = [''Table_IND'', ''Table_None'']
   \<and> sample_header ! 1 = ''Customer_Id'' \<and> spark_names ! 1 = ''Customer_ID''"
proof -
  have "pandas_sample_output ! 1
       = (''Table_IND'',
          frame_of (sample_header @ derived_names) [alex_ind_dated @ [Num 37, Num 30, Str ''No'']])"
    "spark_sample_output ! 0
       = (''Table_IND'',
          frame_of (spark_names @ derived_names) [alex_ind_dated @ [Num 37, Num 30, Str ''Yes'']])"
    by (simp_all add: pandas_sample_output_def spark_sample_output_def)
  moreover have
    "map (cell_at id ''Consulted_Recently'') (rws (snd (pandas_sample_output ! 1))) = [Str ''No'']"
    "map (cell_at lower ''Consulted_Recently'') (rws (snd (spark_sample_output ! 0))) = [Str ''Yes'']"
    by (simp_all add: pandas_sample_output_def spark_sample_output_def frame_of_def cell_at_def
        sample_names sample_rows lower_steps)
  moreover have "map fst pandas_sample_output = [''Table_USA'', ''Table_IND'', ''Table_None'']"
    "map fst spark_sample_output = [''Table_IND'', ''Table_None'']"
    by (simp_all add: pandas_sample_output_def spark_sample_output_def)
  moreover have "sample_header ! 1 = ''Customer_Id''" "spark_names ! 1 = ''Customer_ID''"
    by (simp_all add: sample_names)
  ultimately show ?thesis
    by (intro conjI sample_pandas_main sample_spark_main)
qed

subsection \<open>The latest record of a customer\<close>

text \<open>
  C3. In both programs, for every validated row there is exactly one row with its
  \<^verbatim>\<open>Customer_Id\<close> among the latest records; that row is a validated row (in PySpark
  without the helper column), and whenever a validated row of the same customer has a
  \<^verbatim>\<open>Last_Consulted_Date\<close>, the row selected has one too, and it is not earlier. So a
  row with a null date is never selected while the customer has a row with a date.
\<close>

theorem C3_latest_record_per_customer:
  "(process_and_load_staging parse lines header = Inr staging
      \<and> global_latest_records staging = Inr latest \<longrightarrow>
      (\<forall>r\<in>set (rws staging). \<exists>x.
          filter (\<lambda>y. cell_at id ''Customer_Id'' y = cell_at id ''Customer_Id'' r) (rws latest) = [x]
          \<and> x \<in> set (rws staging)
          \<and> (\<forall>r'\<in>set (rws staging).
                cell_at id ''Customer_Id'' r' = cell_at id ''Customer_Id'' r \<longrightarrow>
                (\<forall>d'. cell_at id ''Last_Consulted_Date'' r' = Day d' \<longrightarrow>
                   (\<exists>d. cell_at id ''Last_Consulted_Date'' x = Day d \<and> ordinal d' \<le> ordinal d)))))
   \<and> (spark_staging parse lines = Inr staging \<and> get_latest_data staging = Inr latest \<longrightarrow>
      (\<forall>r\<in>set (rws staging). \<exists>x.
          filter (\<lambda>y. cell_at lower ''Customer_ID'' y = cell_at lower ''Customer_ID'' r) (rws latest)
            = [x]
          \<and> (\<exists>v\<in>set (rws staging). x = filter (\<lambda>(k, _). lower k \<noteq> lower ''row_number'') v)
          \<and> (\<forall>r'\<in>set (rws staging).
                cell_at lower ''Customer_ID'' r' = cell_at lower ''Customer_ID'' r \<longrightarrow>
                (\<forall>d'. cell_at lower ''Last_Consulted_Date'' r' = Day d' \<longrightarrow>
                   (\<exists>d. cell_at lower ''Last_Consulted_Date'' x = Day d
                        \<and> ordinal d' \<le> ordinal d)))))"
proof (intro conjI impI ballI)
  fix r
  assume a: "process_and_load_staging parse lines header = Inr staging
      \<and> global_latest_records staging = Inr latest"
    and r: "r \<in> set (rws staging)"
  let ?key = "cell_at id ''Customer_Id''" and ?col = "cell_at id ''Last_Consulted_Date''"
  from a process_and_load_staging_validated obtain conv where
    "pandas_validate_data conv = Inr staging"
    by blast
  from pandas_validated_rows_mandatory[OF this r] have nn: "notnull (?key r)"
    by (simp add: notnull_iff)
  have dates: "\<forall>y\<in>set (rws staging). ?col y = Null \<or> (\<exists>d. ?col y = Day d)"
    using a pandas_staging_dates by blast
  have "filter (\<lambda>y. ?key y = ?key r) (rws latest)
      = take 1 (sort_desc_nulls_last ?col (filter (\<lambda>y. ?key y = ?key r) (rws staging)))"
    using nn global_latest_records_Inr(2)[OF a[THEN conjunct2]]
    by (simp add: filter_groupby_head1 filter_sort_desc_nulls_last)
  with latest_of_group_dates[OF r dates, of ?key]
  show "\<exists>x. filter (\<lambda>y. ?key y = ?key r) (rws latest) = [x]
          \<and> x \<in> set (rws staging)
          \<and> (\<forall>r'\<in>set (rws staging). ?key r' = ?key r \<longrightarrow>
                (\<forall>d'. ?col r' = Day d' \<longrightarrow> (\<exists>d. ?col x = Day d \<and> ordinal d' \<le> ordinal d)))"
    by auto
next
  fix r
  assume a: "spark_staging parse lines = Inr staging \<and> get_latest_data staging = Inr latest"
    and r: "r \<in> set (rws staging)"
  let ?key = "cell_at lower ''Customer_ID''" and ?col = "cell_at lower ''Last_Consulted_Date''"
  let ?drop = "filter (\<lambda>(k, _). lower k \<noteq> lower ''row_number'')"
  have key: "?key (?drop v) = ?key v" and col: "?col (?drop v) = ?col v" for v :: row
    by (simp_all add: cell_at_drop_row_number lower_names)
  have dates: "\<forall>y\<in>set (rws staging). ?col y = Null \<or> (\<exists>d. ?col y = Day d)"
    using a spark_staging_dates by blast
  have "rws latest = map ?drop (first_of_each_group ?key ?col (rws staging))"
    using a get_latest_data_Inr by blast
  then have sel: "filter (\<lambda>y. ?key y = ?key r) (rws latest)
      = map ?drop (take 1 (sort_desc_nulls_last ?col (filter (\<lambda>y. ?key y = ?key r) (rws staging))))"
    by (simp only: filter_map comp_def key filter_first_of_each_group)
  from latest_of_group_dates[OF r dates, of ?key] obtain x where
    x: "take 1 (sort_desc_nulls_last ?col (filter (\<lambda>y. ?key y = ?key r) (rws staging))) = [x]"
       "x \<in> set (rws staging)"
       "\<forall>r'\<in>set (rws staging). ?key r' = ?key r \<longrightarrow>
           (\<forall>d'. ?col r' = Day d' \<longrightarrow> (\<exists>d. ?col x = Day d \<and> ordinal d' \<le> ordinal d))"
    by blast
  have "filter (\<lambda>y. ?key y = ?key r) (rws latest) = [?drop x]"
    unfolding sel x(1) by simp
  moreover have "\<exists>v\<in>set (rws staging). ?drop x = ?drop v"
    using x(2) by blast
  moreover have "\<forall>r'\<in>set (rws staging). ?key r' = ?key r \<longrightarrow>
      (\<forall>d'. ?col r' = Day d' \<longrightarrow> (\<exists>d. ?col (?drop x) = Day d \<and> ordinal d' \<le> ordinal d))"
    using x(3) unfolding col .
  ultimately
  show "\<exists>x. filter (\<lambda>y. ?key y = ?key r) (rws latest) = [x]
          \<and> (\<exists>v\<in>set (rws staging). x = ?drop v)
          \<and> (\<forall>r'\<in>set (rws staging). ?key r' = ?key r \<longrightarrow>
                (\<forall>d'. ?col r' = Day d' \<longrightarrow> (\<exists>d. ?col x = Day d \<and> ordinal d' \<le> ordinal d)))"
    by blast
qed

theorem C3_latest_record_per_customer_witness:
  "process_and_load_staging sample_parse sample_file sample_header = Inr pandas_sample_staging
   \<and> global_latest_records pandas_sample_staging = Inr pandas_sample_latest
   \<and> (\<exists>x. filter (\<lambda>y. cell_at id ''Customer_Id'' y = Str ''123457'') (rws pandas_sample_latest) = [x]
          \<and> x \<in> set (rws pandas_sample_staging)
          \<and> (\<exists>d. cell_at id ''Last_Consulted_Date'' x = Day d
                \<and> ordinal (YMD 2024 1 1) \<le> ordinal d))
   \<and> spark_staging sample_parse sample_file = Inr spark_sample_staging
   \<and> get_latest_data spark_sample_staging = Inr spark_sample_latest
   \<and> (\<exists>x. filter (\<lambda>y. cell_at lower ''Customer_ID'' y = Str ''123457'') (rws spark_sample_latest)
            = [x]
          \<and> (\<exists>d. cell_at lower ''Last_Consulted_Date'' x = Day d
                \<and> ordinal (YMD 2024 1 1) \<le> ordinal d))"
proof -
  let ?p = "zip sample_header alex_usa_dated" and ?p' = "zip sample_header alex_ind_dated"
  let ?s = "zip spark_names alex_usa_dated" and ?s' = "zip spark_names alex_ind_dated"
  have p: "?p \<in> set (rws pandas_sample_staging)" "?p' \<in> set (rws pandas_sample_staging)"
    and s: "?s \<in> set (rws spark_sample_staging)" "?s' \<in> set (rws spark_sample_staging)"
    by (simp_all add: pandas_sample_staging_def spark_sample_staging_def frame_of_def)
  have pc: "cell_at id ''Customer_Id'' ?p = Str ''123457''"
      "cell_at id ''Customer_Id'' ?p' = Str ''123457''"
      "cell_at id ''Last_Consulted_Date'' ?p' = Day (YMD 2024 1 1)"
    by (simp_all add: cell_at_def sample_names sample_rows)
  have sc: "cell_at lower ''Customer_ID'' ?s = Str ''123457''"
      "cell_at lower ''Customer_ID'' ?s' = Str ''123457''"
      "cell_at lower ''Last_Consulted_Date'' ?s' = Day (YMD 2024 1 1)"
    by (simp_all add: cell_at_def sample_names sample_rows lower_steps)
  note t = C3_latest_record_per_customer[where parse = sample_parse and lines = sample_file
      and header = sample_header]
  from t[where staging = pandas_sample_staging and latest = pandas_sample_latest,
      THEN conjunct1, THEN mp, OF conjI[OF sample_pandas_staging sample_pandas_latest],
      THEN bspec, OF p(1)]
  obtain x where
    x: "filter (\<lambda>y. cell_at id ''Customer_Id'' y = cell_at id ''Customer_Id'' ?p)
          (rws pandas_sample_latest) = [x]"
       "x \<in> set (rws pandas_sample_staging)"
       "\<forall>r'\<in>set (rws pandas_sample_staging).
           cell_at id ''Customer_Id'' r' = cell_at id ''Customer_Id'' ?p \<longrightarrow>
           (\<forall>d'. cell_at id ''Last_Consulted_Date'' r' = Day d' \<longrightarrow>
              (\<exists>d. cell_at id ''Last_Consulted_Date'' x = Day d \<and> ordinal d' \<le> ordinal d))"
    by blast
  from x(3)[THEN bspec, OF p(2)] pc
  have "\<exists>d. cell_at id ''Last_Consulted_Date'' x = Day d \<and> ordinal (YMD 2024 1 1) \<le> ordinal d"
    by simp
  with x(1,2) pc(1)
  have pandas: "\<exists>x. filter (\<lambda>y. cell_at id ''Customer_Id'' y = Str ''123457'')
        (rws pandas_sample_latest) = [x]
      \<and> x \<in> set (rws pandas_sample_staging)
      \<and> (\<exists>d. cell_at id ''Last_Consulted_Date'' x = Day d \<and> ordinal (YMD 2024 1 1) \<le> ordinal d)"
    by simp
  from t[where staging = spark_sample_staging and latest = spark_sample_latest,
      THEN conjunct2, THEN mp, OF conjI[OF sample_spark_staging sample_spark_latest],
      THEN bspec, OF s(1)]
  obtain y where
    y: "filter (\<lambda>y. cell_at lower ''Customer_ID'' y = cell_at lower ''Customer_ID'' ?s)
          (rws spark_sample_latest) = [y]"
       "\<forall>r'\<in>set (rws spark_sample_staging).
           cell_at lower ''Customer_ID'' r' = cell_at lower ''Customer_ID'' ?s \<longrightarrow>
           (\<forall>d'. cell_at lower ''Last_Consulted_Date'' r' = Day d' \<longrightarrow>
              (\<exists>d. cell_at lower ''Last_Consulted_Date'' y = Day d \<and> ordinal d' \<le> ordinal d))"
    by blast
  from y(2)[THEN bspec, OF s(2)] sc
  have "\<exists>d. cell_at lower ''Last_Consulted_Date'' y = Day d
      \<and> ordinal (YMD 2024 1 1) \<le> ordinal d"
    by simp
  with y(1) sc(1)
  have spark: "\<exists>x. filter (\<lambda>y. cell_at lower ''Customer_ID'' y = Str ''123457'')
        (rws spark_sample_latest) = [x]
      \<and> (\<exists>d. cell_at lower ''Last_Consulted_Date'' x = Day d
            \<and> ordinal (YMD 2024 1 1) \<le> ordinal d)"
    by simp
  show ?thesis
    by (intro conjI sample_pandas_staging sample_pandas_latest sample_spark_staging
        sample_spark_latest pandas spark)
qed

subsection \<open>Mandatory fields\<close>

text \<open>
  C4. In both programs \<^verbatim>\<open>validate_data\<close> keeps exactly the rows whose
  \<^verbatim>\<open>Customer_Name\<close> and \<^verbatim>\<open>Customer_Id\<close> are present and within their length
  and whose \<^verbatim>\<open>Open_Date\<close> is not null, each with the six length rules applied; so a
  row in which one of the three fields is null (an \<^verbatim>\<open>Open_Date\<close> that did not parse is
  null when it arrives here) is not among the rows kept, and in every row that is kept the
  three fields are not null. The same holds for every row of every artifact that a run
  writes, whatever the storage does.
\<close>

theorem C4_mandatory_fields_present:
  "(pandas_validate_data df = Inr df' \<longrightarrow>
      (\<exists>kept. rws df' = map pandas_length_rules kept
         \<and> kept = filter (\<lambda>r. keep_if_short 255 (cell_at id ''Customer_Name'' r) \<noteq> Null
                             \<and> keep_if_short 18 (cell_at id ''Customer_Id'' r) \<noteq> Null
                             \<and> cell_at id ''Open_Date'' r \<noteq> Null) (rws df)
         \<and> (\<forall>r\<in>set (rws df).
               cell_at id ''Customer_Name'' r = Null \<or> cell_at id ''Customer_Id'' r = Null
               \<or> cell_at id ''Open_Date'' r = Null \<longrightarrow> r \<notin> set kept))
      \<and> (\<forall>r\<in>set (rws df').
            cell_at id ''Customer_Name'' r \<noteq> Null \<and> cell_at id ''Customer_Id'' r \<noteq> Null
            \<and> cell_at id ''Open_Date'' r \<noteq> Null))
   \<and> (spark_validate_data df = Inr df' \<longrightarrow>
      (\<exists>kept. rws df' = map spark_length_rules kept
         \<and> kept = filter (\<lambda>r. when_short 255 (cell_at lower ''Customer_Name'' r) \<noteq> Null
                             \<and> when_short 18 (cell_at lower ''Customer_ID'' r) \<noteq> Null
                             \<and> cell_at lower ''Open_Date'' r \<noteq> Null) (rws df)
         \<and> (\<forall>r\<in>set (rws df).
               cell_at lower ''Customer_Name'' r = Null \<or> cell_at lower ''Customer_ID'' r = Null
               \<or> cell_at lower ''Open_Date'' r = Null \<longrightarrow> r \<notin> set kept))
      \<and> (\<forall>r\<in>set (rws df').
            cell_at lower ''Customer_Name'' r \<noteq> Null \<and> cell_at lower ''Customer_ID'' r \<noteq> Null
            \<and> cell_at lower ''Open_Date'' r \<noteq> Null))
   \<and> (pandas_main parse fails now lines = (st, arts) \<longrightarrow>
        (\<forall>a\<in>set arts. \<forall>r\<in>set (rws (snd a)).
            cell_at id ''Customer_Name'' r \<noteq> Null \<and> cell_at id ''Customer_Id'' r \<noteq> Null
            \<and> cell_at id ''Open_Date'' r \<noteq> Null))
   \<and> (spark_main parse fails now lines = (st, arts) \<longrightarrow>
        (\<forall>a\<in>set arts. \<forall>r\<in>set (rws (snd a)).
            cell_at lower ''Customer_Name'' r \<noteq> Null \<and> cell_at lower ''Customer_ID'' r \<noteq> Null
            \<and> cell_at lower ''Open_Date'' r \<noteq> Null))"
proof (intro conjI impI)
  assume v: "pandas_validate_data df = Inr df'"
  show "\<exists>kept. rws df' = map pandas_length_rules kept
         \<and> kept = filter (\<lambda>r. keep_if_short 255 (cell_at id ''Customer_Name'' r) \<noteq> Null
                             \<and> keep_if_short 18 (cell_at id ''Customer_Id'' r) \<noteq> Null
                             \<and> cell_at id ''Open_Date'' r \<noteq> Null) (rws df)
         \<and> (\<forall>r\<in>set (rws df).
               cell_at id ''Customer_Name'' r = Null \<or> cell_at id ''Customer_Id'' r = Null
               \<or> cell_at id ''Open_Date'' r = Null \<longrightarrow> r \<notin> set kept)"
    using pandas_validate_kept[OF v] by (auto simp: notnull_iff keep_if_short_def)
  show "\<forall>r\<in>set (rws df').
            cell_at id ''Customer_Name'' r \<noteq> Null \<and> cell_at id ''Customer_Id'' r \<noteq> Null
            \<and> cell_at id ''Open_Date'' r \<noteq> Null"
    using pandas_validated_rows_mandatory[OF v] by blast
next
  assume v: "spark_validate_data df = Inr df'"
  show "\<exists>kept. rws df' = map spark_length_rules kept
         \<and> kept = filter (\<lambda>r. when_short 255 (cell_at lower ''Customer_Name'' r) \<noteq> Null
                             \<and> when_short 18 (cell_at lower ''Customer_ID'' r) \<noteq> Null
                             \<and> cell_at lower ''Open_Date'' r \<noteq> Null) (rws df)
         \<and> (\<forall>r\<in>set (rws df).
               cell_at lower ''Customer_Name'' r = Null \<or> cell_at lower ''Customer_ID'' r = Null
               \<or> cell_at lower ''Open_Date'' r = Null \<longrightarrow> r \<notin> set kept)"
    using spark_validate_kept[OF v]
    by (auto simp: notnull_iff when_short_def str_length_def sql_le_def)
  show "\<forall>r\<in>set (rws df').
            cell_at lower ''Customer_Name'' r \<noteq> Null \<and> cell_at lower ''Customer_ID'' r \<noteq> Null
            \<and> cell_at lower ''Open_Date'' r \<noteq> Null"
    using spark_validated_rows_mandatory[OF v] by blast
next
  assume m: "pandas_main parse fails now lines = (st, arts)"
  show "\<forall>a\<in>set arts. \<forall>r\<in>set (rws (snd a)).
            cell_at id ''Customer_Name'' r \<noteq> Null \<and> cell_at id ''Customer_Id'' r \<noteq> Null
            \<and> cell_at id ''Open_Date'' r \<noteq> Null"
  proof (intro ballI)
    fix a r
    assume "a \<in> set arts" and "r \<in> set (rws (snd a))"
    from pandas_main_rows[OF m this] obtain header staging v where
      "process_and_load_staging parse lines header = Inr staging" "v \<in> set (rws staging)"
      "r = pandas_derived_row now v"
      by blast
    then show "cell_at id ''Customer_Name'' r \<noteq> Null \<and> cell_at id ''Customer_Id'' r \<noteq> Null
            \<and> cell_at id ''Open_Date'' r \<noteq> Null"
      using pandas_validated_rows_mandatory process_and_load_staging_validated
      by (metis pandas_derived_row_cells(1,2,3))
  qed
next
  assume m: "spark_main parse fails now lines = (st, arts)"
  show "\<forall>a\<in>set arts. \<forall>r\<in>set (rws (snd a)).
            cell_at lower ''Customer_Name'' r \<noteq> Null \<and> cell_at lower ''Customer_ID'' r \<noteq> Null
            \<and> cell_at lower ''Open_Date'' r \<noteq> Null"
  proof (intro ballI)
    fix a r
    assume "a \<in> set arts" and "r \<in> set (rws (snd a))"
    from spark_main_rows[OF m this] obtain staging v where
      s: "spark_staging parse lines = Inr staging" "v \<in> set (rws staging)"
      "r = spark_derived_row now (filter (\<lambda>(k, _). lower k \<noteq> lower ''row_number'') v)"
      by blast
    from spark_staging_validated[OF s(1)] obtain conv where "spark_validate_data conv = Inr staging"
      by blast
    from spark_validated_rows_mandatory[OF this s(2)]
    show "cell_at lower ''Customer_Name'' r \<noteq> Null \<and> cell_at lower ''Customer_ID'' r \<noteq> Null
            \<and> cell_at lower ''Open_Date'' r \<noteq> Null"
      unfolding s(3) by (simp add: spark_derived_row_cells cell_at_drop_row_number lower_names)
  qed
qed

theorem C4_mandatory_fields_present_witness:
  "pandas_validate_data sample_dated = Inr pandas_sample_staging
   \<and> list_all (\<lambda>r. cell_at id ''Customer_Name'' r \<noteq> Null \<and> cell_at id ''Customer_Id'' r \<noteq> Null
                      \<and> cell_at id ''Open_Date'' r \<noteq> Null) (rws pandas_sample_staging)
   \<and> spark_validate_data sample_dated = Inr spark_sample_staging
   \<and> list_all (\<lambda>r. cell_at lower ''Customer_Name'' r \<noteq> Null \<and> cell_at lower ''Customer_ID'' r \<noteq> Null
                      \<and> cell_at lower ''Open_Date'' r \<noteq> Null) (rws spark_sample_staging)
   \<and> pandas_main sample_parse never sample_today sample_file = (None, pandas_sample_output)
   \<and> list_all (\<lambda>a. list_all (\<lambda>r. cell_at id ''Customer_Name'' r \<noteq> Null
                      \<and> cell_at id ''Customer_Id'' r \<noteq> Null
                      \<and> cell_at id ''Open_Date'' r \<noteq> Null) (rws (snd a))) pandas_sample_output
   \<and> spark_main sample_parse never sample_today sample_file = (None, spark_sample_output)
   \<and> list_all (\<lambda>a. list_all (\<lambda>r. cell_at lower ''Customer_Name'' r \<noteq> Null
                      \<and> cell_at lower ''Customer_ID'' r \<noteq> Null
                      \<and> cell_at lower ''Open_Date'' r \<noteq> Null) (rws (snd a))) spark_sample_output"
proof -
  note p = C4_mandatory_fields_present[where parse = sample_parse and df = sample_dated and df' = pandas_sample_staging
      and fails = never and now = sample_today and lines = sample_file and st = None
      and arts = pandas_sample_output]
  note s = C4_mandatory_fields_present[where parse = sample_parse and df = sample_dated and df' = spark_sample_staging
      and fails = never and now = sample_today and lines = sample_file and st = None
      and arts = spark_sample_output]
  note f1 = p[THEN conjunct1, THEN mp, OF sample_pandas_validated, THEN conjunct2]
  note f2 = s[THEN conjunct2, THEN conjunct1, THEN mp, OF sample_spark_validated, THEN conjunct2]
  note f3 = p[THEN conjunct2, THEN conjunct2, THEN conjunct1, THEN mp, OF sample_pandas_main]
  note f4 = s[THEN conjunct2, THEN conjunct2, THEN conjunct2, THEN mp, OF sample_spark_main]
  show ?thesis
    unfolding list_all_iff
    by (intro conjI sample_pandas_validated sample_spark_validated sample_pandas_main
        sample_spark_main f1 f2 f3 f4)
qed

subsection \<open>Date columns\<close>



subsection \<open>Lines with too few or too many fields\<close>




subsection \<open>Header lines and data lines\<close>




subsection \<open>Records without a country\<close>

text \<open>
  C8. The claim: a null country is a partition of its own, and every latest record is
  written to exactly one artifact. Both programs do loop over the null country and write
  an artifact \<^verbatim>\<open>Table_None\<close> for it, but they select its rows with
  \<^verbatim>\<open>Country == country\<close>, which no row satisfies when the country is null: the
  artifact is empty, and the records without a country are in no artifact. In the sample
  file Bob's country has seven characters, so validation makes it null; his record is
  among the latest records of both programs, and the only row that either run writes is
  Alex's.
\<close>

theorem C8_null_country_rows_not_written:
  "global_latest_records pandas_sample_staging = Inr pandas_sample_latest
   \<and> rws pandas_sample_latest ! 1 = zip sample_header bob_valid
   \<and> cell_at id ''Country'' (zip sample_header bob_valid) = Null
   \<and> pandas_main sample_parse never sample_today sample_file = (None, pandas_sample_output)
   \<and> map fst pandas_sample_output = [''Table_USA'', ''Table_IND'', ''Table_None'']
   \<and> map (cell_at id ''Customer_Name'') (concat (map (rws \<circ> snd) pandas_sample_output))
       = [Str ''Alex'']
   \<and> get_latest_data spark_sample_staging = Inr spark_sample_latest
   \<and> rws spark_sample_latest ! 1 = zip spark_names bob_valid
   \<and> cell_at lower ''Country'' (zip spark_names bob_valid) = Null
   \<and> spark_main sample_parse never sample_today sample_file = (None, spark_sample_output)
   \<and> map fst spark_sample_output = [''Table_IND'', ''Table_None'']
   \<and> map (cell_at lower ''Customer_Name'') (concat (map (rws \<circ> snd) spark_sample_output))
       = [Str ''Alex'']"
proof -
  have "rws pandas_sample_latest ! 1 = zip sample_header bob_valid"
    "rws spark_sample_latest ! 1 = zip spark_names bob_valid"
    by (simp_all add: pandas_sample_latest_def spark_sample_latest_def frame_of_def)
  moreover have "cell_at id ''Country'' (zip sample_header bob_valid) = Null"
    "cell_at lower ''Country'' (zip spark_names bob_valid) = Null"
    by (simp_all add: cell_at_def sample_names sample_rows lower_steps)
  moreover have "map fst pandas_sample_output = [''Table_USA'', ''Table_IND'', ''Table_None'']"
    "map fst spark_sample_output = [''Table_IND'', ''Table_None'']"
    by (simp_all add: pandas_sample_output_def spark_sample_output_def)
  moreover have
    "map (cell_at id ''Customer_Name'') (concat (map (rws \<circ> snd) pandas_sample_output))
       = [Str ''Alex'']"
    "map (cell_at lower ''Customer_Name'') (concat (map (rws \<circ> snd) spark_sample_output))
       = [Str ''Alex'']"
    by (simp_all add: pandas_sample_output_def spark_sample_output_def frame_of_def cell_at_def
        sample_names sample_rows lower_steps)
  ultimately show ?thesis
    by (intro conjI sample_pandas_latest sample_pandas_main sample_spark_latest sample_spark_main)
qed

subsection \<open>A write that fails\<close>

text \<open>
  C9. The claim says that after a failed write the run goes on with the remaining
  countries. In both programs the loop over the countries stands inside one
  \<^verbatim>\<open>try\<close>, so the first write that raises ends the loop and the run: take a run that
  writes the artifacts \<open>arts\<close> when no write fails; with a storage that fails on some
  names, the same run writes exactly the artifacts of \<open>arts\<close> before the first one whose
  write fails, reports that failure, and writes none of the later ones.
\<close>

theorem C9_write_failure_ends_the_run:
  "(pandas_main parse (\<lambda>_. False) now lines = (None, arts) \<longrightarrow>
      pandas_main parse fails now lines =
        (case find (\<lambda>a. fails (fst a)) arts of
           None \<Rightarrow> None
         | Some a \<Rightarrow> Some (WriteFailure (fst a)),
         takeWhile (\<lambda>a. \<not> fails (fst a)) arts))
   \<and> (spark_main parse (\<lambda>_. False) now lines = (None, arts) \<longrightarrow>
      spark_main parse fails now lines =
        (case find (\<lambda>a. fails (fst a)) arts of
           None \<Rightarrow> None
         | Some a \<Rightarrow> Some (WriteFailure (fst a)),
         takeWhile (\<lambda>a. \<not> fails (fst a)) arts))"
proof (intro conjI impI)
  assume a: "pandas_main parse (\<lambda>_. False) now lines = (None, arts)"
  then obtain header staging latest where
    h: "pandas_extract_header lines = Inr header"
       "process_and_load_staging parse lines header = Inr staging"
       "global_latest_records staging = Inr latest"
       "resolve id (columns staging) ''Country'' = Inr ()"
       "pandas_country_loop (\<lambda>_. False) now latest
          (unique (map (cell_at id ''Country'') (rws staging))) [] = (None, arts)"
    by (auto simp: pandas_main_def create_and_populate_country_tables_def split: sum.splits)
  show "pandas_main parse fails now lines =
        (case find (\<lambda>a. fails (fst a)) arts of
           None \<Rightarrow> None
         | Some a \<Rightarrow> Some (WriteFailure (fst a)),
         takeWhile (\<lambda>a. \<not> fails (fst a)) arts)"
    using h(1-4) pandas_country_loop_prefix[OF h(5), of fails]
    by (simp add: pandas_main_def create_and_populate_country_tables_def)
next
  assume a: "spark_main parse (\<lambda>_. False) now lines = (None, arts)"
  then obtain derived where
    h: "and_then (spark_staging parse lines) (\<lambda>data.
          and_then (get_latest_data data) (add_derived_columns now)) = Inr derived"
       "resolve lower (columns derived) ''Country'' = Inr ()"
       "spark_country_loop (\<lambda>_. False) derived
          (unique (map (cell_at lower ''Country'') (rws derived))) [] = (None, arts)"
    by (auto simp: spark_main_def save_country_data_def split: sum.splits)
  show "spark_main parse fails now lines =
        (case find (\<lambda>a. fails (fst a)) arts of
           None \<Rightarrow> None
         | Some a \<Rightarrow> Some (WriteFailure (fst a)),
         takeWhile (\<lambda>a. \<not> fails (fst a)) arts)"
    using h(1,2) spark_country_loop_prefix[OF h(3), of fails]
    by (simp add: spark_main_def save_country_data_def)
qed

theorem C9_write_failure_ends_the_run_witness:
  "pandas_main sample_parse never sample_today sample_file = (None, pandas_sample_output)
   \<and> pandas_main sample_parse fails_IND sample_today sample_file
       = (Some (WriteFailure ''Table_IND''), [(''Table_USA'', frame_of (sample_header @ derived_names) [])])
   \<and> spark_main sample_parse never sample_today sample_file = (None, spark_sample_output)
   \<and> spark_main sample_parse fails_IND sample_today sample_file
       = (Some (WriteFailure ''Table_IND''), [])"
proof -
  have n: "(\<lambda>_. False) = never"
    by (simp add: never_def fun_eq_iff)
  note t = C9_write_failure_ends_the_run[where parse = sample_parse and now = sample_today
      and lines = sample_file and fails = fails_IND, unfolded n]
  note p = t[where arts = pandas_sample_output, THEN conjunct1, THEN mp, OF sample_pandas_main]
  note s = t[where arts = spark_sample_output, THEN conjunct2, THEN mp, OF sample_spark_main]
  have "pandas_main sample_parse fails_IND sample_today sample_file
       = (Some (WriteFailure ''Table_IND''), [(''Table_USA'', frame_of (sample_header @ derived_names) [])])"
    unfolding p by (simp add: pandas_sample_output_def fails_IND_def)
  moreover have "spark_main sample_parse fails_IND sample_today sample_file
       = (Some (WriteFailure ''Table_IND''), [])"
    unfolding s by (simp add: spark_sample_output_def fails_IND_def)
  ultimately show ?thesis
    by (intro conjI sample_pandas_main sample_spark_main)
qed

theorem C9_later_countries_not_written:
  "pandas_main sample_parse fails_USA sample_today sample_file
     = (Some (WriteFailure ''Table_USA''), [])
   \<and> map fst (snd (pandas_main sample_parse never sample_today sample_file))
       = [''Table_USA'', ''Table_IND'', ''Table_None'']
   \<and> spark_main sample_parse fails_IND sample_today sample_file
       = (Some (WriteFailure ''Table_IND''), [])
   \<and> map fst (snd (spark_main sample_parse never sample_today sample_file))
       = [''Table_IND'', ''Table_None'']"
proof -
  have "save_country_data fails_IND spark_sample_derived = (Some (WriteFailure ''Table_IND''), [])"
    by (simp add: spark_sample_derived_def sample_names sample_rows save_country_data_def
        fails_IND_def table_name_def eq_cell_def notnull_def unique_def frame_steps lower_steps)
  then have spark: "spark_main sample_parse fails_IND sample_today sample_file
       = (Some (WriteFailure ''Table_IND''), [])"
    by (simp add: spark_main_def sample_spark_staging sample_spark_latest sample_spark_derived)
  have "pandas_main sample_parse fails_USA sample_today sample_file
     = (Some (WriteFailure ''Table_USA''), [])"
    using sample_pandas_header sample_pandas_staging sample_pandas_latest
      sample_pandas_country_column sample_pandas_countries sample_pandas_table_USA
    by (simp add: pandas_main_def create_and_populate_country_tables_def fails_USA_def
        table_name_def)
  with spark show ?thesis
    by (simp add: sample_pandas_main pandas_sample_output_def sample_spark_main
        spark_sample_output_def)
qed

subsection \<open>The artifacts of the pandas program\<close>

text \<open>
  C10. In the pandas program the countries are those of the validated rows
  (\<^verbatim>\<open>staging_df["Country"].unique()\<close>), taken before the latest records are selected.
  Take a file whose header names are distinct and whose validated rows are \<open>staging\<close>, and
  a storage on which no write fails. Then the run ends without an error, and it writes one
  artifact for each country value of \<open>staging\<close>, in the order of first occurrence: for
  every validated row there is an artifact \<^verbatim>\<open>Table_<Country>\<close> of its country, and it
  holds the latest records of that country with their derived columns. When no latest
  record has that country, the artifact is written all the same, with no rows.
\<close>

theorem C10_artifacts_follow_validated_countries:
  "pandas_extract_header lines = Inr header
   \<and> process_and_load_staging parse lines header = Inr staging
   \<and> distinct header \<longrightarrow>
   (\<exists>latest arts.
       global_latest_records staging = Inr latest
       \<and> pandas_main parse (\<lambda>_. False) now lines = (None, arts)
       \<and> map fst arts = map table_name (unique (map (cell_at id ''Country'') (rws staging)))
       \<and> (\<forall>r\<in>set (rws staging). \<exists>a\<in>set arts.
             fst a = table_name (cell_at id ''Country'' r)
             \<and> rws (snd a) =
                 map (pandas_derived_row now)
                   (filter (\<lambda>x. eq_cell (cell_at id ''Country'' x) (cell_at id ''Country'' r))
                      (rws latest))
             \<and> ((\<forall>x\<in>set (rws latest). cell_at id ''Country'' x \<noteq> cell_at id ''Country'' r)
                  \<longrightarrow> rws (snd a) = [])))"
proof (intro impI)
  assume a: "pandas_extract_header lines = Inr header
   \<and> process_and_load_staging parse lines header = Inr staging
   \<and> distinct header"
  then have h: "pandas_extract_header lines = Inr header"
    and s: "process_and_load_staging parse lines header = Inr staging"
    and d: "distinct header"
    by simp_all
  note c = pandas_staging_columns[OF s]
  define cs where "cs = unique (map (cell_at id ''Country'') (rws staging))"
  define latest where "latest = staging\<lparr>rws :=
      groupby_head1 (cell_at id ''Customer_Id'') []
        (sort_desc_nulls_last (cell_at id ''Last_Consulted_Date'') (rws staging))\<rparr>"
  have l: "global_latest_records staging = Inr latest"
    using c(2,4) by (simp add: global_latest_records_def latest_def)
  have lc: "columns latest = header"
    using c(1) by (simp add: latest_def)
  have "\<forall>c\<in>set cs. \<exists>t. pandas_country_table now latest c = Inr t"
    using pandas_country_table_ok[of latest now] c d unfolding lc by blast
  from pandas_country_loop_never[OF this] obtain arts where
    arts: "pandas_country_loop (\<lambda>_. False) now latest cs [] = (None, arts)"
      "length arts = length cs"
      "\<forall>i<length cs. fst (arts ! i) = table_name (cs ! i)
          \<and> pandas_country_table now latest (cs ! i) = Inr (snd (arts ! i))"
    by blast
  have m: "pandas_main parse (\<lambda>_. False) now lines = (None, arts)"
    using h s l c(5) arts(1)
    by (simp add: pandas_main_def create_and_populate_country_tables_def cs_def)
  have names: "map fst arts = map table_name cs"
    using arts(2,3) by (intro nth_equalityI) simp_all
  have rows: "\<exists>a\<in>set arts.
      fst a = table_name (cell_at id ''Country'' r)
      \<and> rws (snd a) =
          map (pandas_derived_row now)
            (filter (\<lambda>x. eq_cell (cell_at id ''Country'' x) (cell_at id ''Country'' r))
               (rws latest))
      \<and> ((\<forall>x\<in>set (rws latest). cell_at id ''Country'' x \<noteq> cell_at id ''Country'' r)
           \<longrightarrow> rws (snd a) = [])"
    if r: "r \<in> set (rws staging)" for r
  proof -
    from r have "cell_at id ''Country'' r \<in> set cs"
      by (simp add: cs_def)
    then obtain i where i: "i < length cs" "cs ! i = cell_at id ''Country'' r"
      by (auto simp: in_set_conv_nth)
    from arts(3) i have f: "fst (arts ! i) = table_name (cell_at id ''Country'' r)"
      and t: "pandas_country_table now latest (cell_at id ''Country'' r) = Inr (snd (arts ! i))"
      by auto
    note rs = pandas_country_table_rows[OF t]
    have "rws (snd (arts ! i)) = []"
      if "\<forall>x\<in>set (rws latest). cell_at id ''Country'' x \<noteq> cell_at id ''Country'' r"
      unfolding rs using that by (auto simp: filter_empty_conv eq_cell_def)
    moreover have "arts ! i \<in> set arts"
      using i(1) arts(2) by simp
    ultimately show ?thesis
      using f rs by blast
  qed
  show "\<exists>latest arts.
       global_latest_records staging = Inr latest
       \<and> pandas_main parse (\<lambda>_. False) now lines = (None, arts)
       \<and> map fst arts = map table_name (unique (map (cell_at id ''Country'') (rws staging)))
       \<and> (\<forall>r\<in>set (rws staging). \<exists>a\<in>set arts.
             fst a = table_name (cell_at id ''Country'' r)
             \<and> rws (snd a) =
                 map (pandas_derived_row now)
                   (filter (\<lambda>x. eq_cell (cell_at id ''Country'' x) (cell_at id ''Country'' r))
                      (rws latest))
             \<and> ((\<forall>x\<in>set (rws latest). cell_at id ''Country'' x \<noteq> cell_at id ''Country'' r)
                  \<longrightarrow> rws (snd a) = []))"
    using l m names rows unfolding cs_def by blast
qed

theorem C10_artifacts_follow_validated_countries_witness:
  "pandas_extract_header sample_file = Inr sample_header
   \<and> process_and_load_staging sample_parse sample_file sample_header = Inr pandas_sample_staging
   \<and> distinct sample_header
   \<and> zip sample_header alex_usa_dated \<in> set (rws pandas_sample_staging)
   \<and> list_all (\<lambda>x. cell_at id ''Country'' x \<noteq> Str ''USA'') (rws pandas_sample_latest)
   \<and> pandas_main sample_parse never sample_today sample_file = (None, pandas_sample_output)
   \<and> map fst pandas_sample_output = [''Table_USA'', ''Table_IND'', ''Table_None'']
   \<and> (\<exists>a\<in>set pandas_sample_output. fst a = ''Table_USA'' \<and> rws (snd a) = [])"
proof -
  let ?r = "zip sample_header alex_usa_dated"
  have n: "(\<lambda>_. False) = never"
    by (simp add: never_def fun_eq_iff)
  have d: "distinct sample_header"
    by (simp add: sample_header_def)
  have r: "?r \<in> set (rws pandas_sample_staging)"
    by (simp add: pandas_sample_staging_def frame_of_def)
  have c: "cell_at id ''Country'' ?r = Str ''USA''"
    by (simp add: cell_at_def sample_names sample_rows)
  have none: "list_all (\<lambda>x. cell_at id ''Country'' x \<noteq> Str ''USA'') (rws pandas_sample_latest)"
    by (simp add: pandas_sample_latest_def frame_of_def cell_at_def sample_names sample_rows)
  from C10_artifacts_follow_validated_countries[where parse = sample_parse and now = sample_today
      and lines = sample_file and header = sample_header and staging = pandas_sample_staging,
      unfolded n, THEN mp, OF conjI[OF sample_pandas_header conjI[OF sample_pandas_staging d]]]
  obtain latest arts where
    t: "global_latest_records pandas_sample_staging = Inr latest"
       "pandas_main sample_parse never sample_today sample_file = (None, arts)"
       "map fst arts = map table_name (unique (map (cell_at id ''Country'') (rws pandas_sample_staging)))"
       "\<forall>r\<in>set (rws pandas_sample_staging). \<exists>a\<in>set arts.
             fst a = table_name (cell_at id ''Country'' r)
             \<and> rws (snd a) =
                 map (pandas_derived_row sample_today)
                   (filter (\<lambda>x. eq_cell (cell_at id ''Country'' x) (cell_at id ''Country'' r))
                      (rws latest))
             \<and> ((\<forall>x\<in>set (rws latest). cell_at id ''Country'' x \<noteq> cell_at id ''Country'' r)
                  \<longrightarrow> rws (snd a) = [])"
    by blast
  from t(1) sample_pandas_latest have latest: "latest = pandas_sample_latest"
    by simp
  from t(2) sample_pandas_main have arts: "arts = pandas_sample_output"
    by simp
  from t(4)[THEN bspec, OF r] none
  have usa: "\<exists>a\<in>set pandas_sample_output. fst a = ''Table_USA'' \<and> rws (snd a) = []"
    unfolding latest arts c list_all_iff by (auto simp: table_name_def)
  have names: "map fst pandas_sample_output = [''Table_USA'', ''Table_IND'', ''Table_None'']"
    using t(3) unfolding arts sample_pandas_countries by (simp add: table_name_def)
  show ?thesis
    by (intro conjI sample_pandas_header sample_pandas_staging d r none sample_pandas_main names usa)
qed

end
